theory Spec2Isabelle
  imports Main
begin

section \<open>Birthday greetings: the user repository, the HTTP handlers and the bot\<close>

text \<open>
  The development follows the Go sources: the MySQL schema (\<open>init.sql\<close>), the repository
  \<open>UserMysqlRepository\<close> (package \<open>user\<close>), the HTTP handlers (package \<open>handlers\<close>) and the
  Telegram bot with its notification cycle (package \<open>bot\<close>).

  Conventions.
  \<^item> Go's \<open>int64\<close> and \<open>int\<close> values are identifiers and column values on which the program
    does no arithmetic; they are \<open>int\<close> here.
  \<^item> A Go \<open>string\<close> is a byte string, so it is a \<open>string\<close> here and text outside ASCII is
    written as its UTF-8 bytes.
  \<^item> A Go result \<open>(value, error)\<close> is a sum \<open>error + value\<close>, with \<open>Inl\<close> the error.
  \<^item> The relational store is a record of its two tables. It is taken to be reachable, so
    a query or statement fails only for a reason the schema or the scanned Go type gives.
    Comparison of two strings in a \<open>WHERE\<close> clause is taken as equality.
  \<^item> Functions of other modules (bcrypt, \<open>strconv.Atoi\<close>, the date conversion of the
    database, the Telegram API, the session manager) are parameters.
\<close>

subsection \<open>Errors\<close>

text \<open>
  The three sentinel errors of package \<open>user\<close> are compared by identity in the handlers;
  every other error value is known by its message only.
\<close>

datatype error = ErrNoUser | ErrBadPass | ErrExists | Other string

fun Error :: "error \<Rightarrow> string" where
  "Error ErrNoUser = ''no user found''"
| "Error ErrBadPass = ''invalid password''"
| "Error ErrExists = ''already exists''"
| "Error (Other s) = s"

subsection \<open>The schema\<close>

record date =
  year :: nat
  month :: nat
  day :: nat

text \<open>Table \<open>users\<close>; \<open>telegramID\<close> is the only column that admits \<open>NULL\<close>.\<close>

record users_row =
  c_id :: int
  c_username :: string
  c_firstname :: string
  c_middlename :: string
  c_lastname :: string
  c_password :: string
  c_birthday :: date
  c_telegram :: string
  c_telegramID :: "int option"

text \<open>Table \<open>subscribes\<close>.\<close>

record subscribes_row =
  s_id :: int
  s_userID :: int
  s_subscriberID :: int

text \<open>
  The database: the rows of both tables in insertion order and the next
  \<open>AUTO_INCREMENT\<close> value of each.
\<close>

record database =
  users :: "users_row list"
  subscribes :: "subscribes_row list"
  users_auto_increment :: int
  subscribes_auto_increment :: int

text \<open>
  The constraints of the schema: primary keys, the \<open>UNIQUE\<close> columns (a \<open>NULL\<close> never
  conflicts), both foreign keys of \<open>subscribes\<close>, and counters beyond the ids in use.
\<close>

definition bound_ids :: "users_row list \<Rightarrow> int list" where
  "bound_ids rs = concat (map (\<lambda>r. case c_telegramID r of None \<Rightarrow> [] | Some t \<Rightarrow> [t]) rs)"

definition valid_db :: "database \<Rightarrow> bool" where
  "valid_db db \<longleftrightarrow>
     distinct (map c_id (users db)) \<and>
     distinct (map c_username (users db)) \<and>
     distinct (map c_telegram (users db)) \<and>
     distinct (bound_ids (users db)) \<and>
     distinct (map s_id (subscribes db)) \<and>
     (\<forall>s \<in> set (subscribes db).
        s_userID s \<in> set (map c_id (users db)) \<and>
        s_subscriberID s \<in> set (map c_id (users db))) \<and>
     (\<forall>r \<in> set (users db). c_id r < users_auto_increment db) \<and>
     (\<forall>s \<in> set (subscribes db). s_id s < subscribes_auto_increment db)"

subsection \<open>The Go struct \<open>User\<close>\<close>

record User =
  ID :: int
  Username :: string
  FirstName :: string
  MiddleName :: string
  LastName :: string
  Password :: string
  Birthday :: string
  Telegram :: string
  TelegramID :: int

text \<open>\<open>&User{}\<close>: every field has its zero value.\<close>

definition zero_User :: User where
  "zero_User = \<lparr>ID = 0, Username = [], FirstName = [], MiddleName = [], LastName = [],
     Password = [], Birthday = [], Telegram = [], TelegramID = 0\<rparr>"

text \<open>A \<open>DATE\<close> reaches Go as the text \<open>YYYY-MM-DD\<close>.\<close>

definition digit :: "nat \<Rightarrow> char" where
  "digit n = ''0123456789'' ! (n mod 10)"

definition date_text :: "date \<Rightarrow> string" where
  "date_text d =
     [digit (year d div 1000), digit (year d div 100), digit (year d div 10), digit (year d)]
     @ ''-'' @ [digit (month d div 10), digit (month d)]
     @ ''-'' @ [digit (day d div 10), digit (day d)]"

subsection \<open>The repository\<close>

text \<open>
  \<open>Authorize\<close>: \<open>QueryRow\<close> takes the first row with the given username; \<open>Scan\<close> fails when
  there is none, and every failure is reported as \<open>ErrNoUser\<close>. The parameter
  \<open>CompareHashAndPassword\<close> is bcrypt's comparison, \<open>True\<close> when it returns no error.
\<close>

definition Authorize ::
  "(string \<Rightarrow> string \<Rightarrow> bool) \<Rightarrow> database \<Rightarrow> string \<Rightarrow> string \<Rightarrow> error + User" where
  "Authorize CompareHashAndPassword db username pass =
     (case find (\<lambda>r. c_username r = username) (users db) of
        None \<Rightarrow> Inl ErrNoUser
      | Some r \<Rightarrow>
          let user = zero_User\<lparr>ID := c_id r, Username := c_username r, Password := c_password r\<rparr>
          in if \<not> CompareHashAndPassword (Password user) pass then Inl ErrBadPass
             else Inr user)"

text \<open>
  What the program needs from the database engine: the conversion of a string to a
  \<open>DATE\<close> (\<open>None\<close> when the engine rejects it), whether a string fits \<open>VARCHAR(200)\<close>, and
  the message of the driver's error for a constraint the engine reports (by its number).
\<close>

record mysql =
  to_date :: "string \<Rightarrow> date option"
  varchar200 :: "string \<Rightarrow> bool"
  errmsg :: "nat \<Rightarrow> string"

text \<open>
  \<open>hashPassword\<close>: \<open>GenerateFromPassword\<close> is bcrypt at its default cost; its first
  argument here is the salt it draws, its second the password.
\<close>

definition hashPassword ::
  "(string \<Rightarrow> string \<Rightarrow> error + string) \<Rightarrow> string \<Rightarrow> string \<Rightarrow> error + string" where
  "hashPassword GenerateFromPassword salt password =
     (case GenerateFromPassword salt password of
        Inl err \<Rightarrow> Inl err
      | Inr hashedBytes \<Rightarrow> Inr hashedBytes)"

text \<open>
  \<open>INSERT INTO users (username, password, firstname, middlename, lastname, birthday,
  telegram)\<close>: the engine rejects a value that does not fit its column and a duplicate of a
  \<open>UNIQUE\<close> column; otherwise the row gets the next id and \<open>telegramID\<close> is \<open>NULL\<close>.
  The result is \<open>LastInsertId\<close> and the new database.
\<close>

definition insert_users ::
  "mysql \<Rightarrow> database \<Rightarrow> string \<Rightarrow> string \<Rightarrow> string \<Rightarrow> string \<Rightarrow> string \<Rightarrow> string \<Rightarrow> string
     \<Rightarrow> (int \<times> database) option" where
  "insert_users eng db username password firstname middlename lastname birthday telegram =
     (case to_date eng birthday of
        None \<Rightarrow> None
      | Some d \<Rightarrow>
          if \<not> (varchar200 eng username \<and> varchar200 eng password \<and> varchar200 eng firstname \<and>
                varchar200 eng middlename \<and> varchar200 eng lastname \<and> varchar200 eng telegram)
          then None
          else if username \<in> set (map c_username (users db)) then None
          else if telegram \<in> set (map c_telegram (users db)) then None
          else
            let row = \<lparr>c_id = users_auto_increment db, c_username = username,
                       c_firstname = firstname, c_middlename = middlename,
                       c_lastname = lastname, c_password = password, c_birthday = d,
                       c_telegram = telegram, c_telegramID = None\<rparr>
            in Some (users_auto_increment db,
                     db\<lparr>users := users db @ [row],
                        users_auto_increment := users_auto_increment db + 1\<rparr>))"

definition MakeUser ::
  "(string \<Rightarrow> string \<Rightarrow> error + string) \<Rightarrow> mysql \<Rightarrow> string \<Rightarrow> database
     \<Rightarrow> string \<Rightarrow> string \<Rightarrow> string \<Rightarrow> string \<Rightarrow> string \<Rightarrow> string \<Rightarrow> string
     \<Rightarrow> (error + User) \<times> database" where
  "MakeUser GenerateFromPassword eng salt db username pass firstname middlename lastname
       birthday telegram =
     (case hashPassword GenerateFromPassword salt pass of
        Inl err \<Rightarrow> (Inl err, db)
      | Inr hashedPass \<Rightarrow>
          (case insert_users eng db username hashedPass firstname middlename lastname
                  birthday telegram of
             None \<Rightarrow> (Inl ErrExists, db)
           | Some (userID, db') \<Rightarrow> (Inr (zero_User\<lparr>ID := userID, Username := username\<rparr>), db')))"

text \<open>
  The loop \<open>for rows.Next() { rows.Scan(...); users = append(users, user) }\<close>, with the
  slice \<open>users\<close> as \<open>us\<close>: the first row that cannot be scanned ends the function with
  that error.
\<close>

fun scan_rows :: "('r \<Rightarrow> error + User) \<Rightarrow> 'r list \<Rightarrow> User list \<Rightarrow> error + User list" where
  "scan_rows Scan [] us = Inr us"
| "scan_rows Scan (row # rows) us =
     (case Scan row of
        Inl err \<Rightarrow> Inl err
      | Inr user \<Rightarrow> scan_rows Scan rows (us @ [user]))"

text \<open>Scanning the seven columns that are \<open>NOT NULL\<close> cannot fail.\<close>

definition Scan7 :: "users_row \<Rightarrow> error + User" where
  "Scan7 r = Inr (zero_User\<lparr>ID := c_id r, Username := c_username r,
     FirstName := c_firstname r, MiddleName := c_middlename r, LastName := c_lastname r,
     Birthday := date_text (c_birthday r), Telegram := c_telegram r\<rparr>)"

text \<open>
  The eighth column, \<open>telegramID\<close>, is scanned into the field \<open>TelegramID int64\<close>:
  \<open>database/sql\<close> refuses to convert \<open>NULL\<close> to an \<open>int64\<close>.
\<close>

definition scan_null_error :: error where
  "scan_null_error = Other (''sql: Scan error on column index 7, name '' @ [CHR 0x22]
     @ ''telegramID'' @ [CHR 0x22] @ '': converting NULL to int64 is unsupported'')"

definition Scan8 :: "users_row \<Rightarrow> error + User" where
  "Scan8 r =
     (case c_telegramID r of
        None \<Rightarrow> Inl scan_null_error
      | Some t \<Rightarrow> Inr (zero_User\<lparr>ID := c_id r, Username := c_username r,
          FirstName := c_firstname r, MiddleName := c_middlename r, LastName := c_lastname r,
          Birthday := date_text (c_birthday r), Telegram := c_telegram r, TelegramID := t\<rparr>))"

definition GetUsers :: "database \<Rightarrow> error + User list" where
  "GetUsers db =
     (case scan_rows Scan7 (users db) [] of
        Inl err \<Rightarrow> Inl err
      | Inr us \<Rightarrow> if length us = 0 then Inl ErrNoUser else Inr us)"

text \<open>
  \<open>INSERT INTO subscribes (userID, subscriberID)\<close>: both columns are foreign keys into
  \<open>users(id)\<close>; nothing makes the pair unique.
\<close>

definition insert_subscribes :: "database \<Rightarrow> int \<Rightarrow> int \<Rightarrow> database option" where
  "insert_subscribes db userID subscriberID =
     (if userID \<in> set (map c_id (users db)) \<and> subscriberID \<in> set (map c_id (users db))
      then Some (db\<lparr>subscribes := subscribes db @
                      [\<lparr>s_id = subscribes_auto_increment db, s_userID = userID,
                        s_subscriberID = subscriberID\<rparr>],
                    subscribes_auto_increment := subscribes_auto_increment db + 1\<rparr>)
      else None)"

text \<open>\<open>DELETE FROM subscribes WHERE userID = ? and subscriberID = ?\<close> removes every such row.\<close>

definition delete_subscribes :: "database \<Rightarrow> int \<Rightarrow> int \<Rightarrow> database option" where
  "delete_subscribes db userID subscriberID =
     Some (db\<lparr>subscribes :=
       filter (\<lambda>s. \<not> (s_userID s = userID \<and> s_subscriberID s = subscriberID)) (subscribes db)\<rparr>)"

definition Subscribe :: "database \<Rightarrow> int \<Rightarrow> int \<Rightarrow> int \<Rightarrow> (error + User) \<times> database" where
  "Subscribe db userID subscriberID typeOf =
     (case find (\<lambda>r. c_id r = userID) (users db) of
        None \<Rightarrow> (Inl ErrNoUser, db)
      | Some r \<Rightarrow>
          let user = zero_User\<lparr>ID := c_id r, Username := c_username r, Telegram := c_telegram r\<rparr>
          in if typeOf = 1 then
               (case insert_subscribes db userID subscriberID of
                  None \<Rightarrow> (Inl ErrExists, db)
                | Some db' \<Rightarrow> (Inr user, db'))
             else if typeOf = 0 then
               (case delete_subscribes db userID subscriberID of
                  None \<Rightarrow> (Inl ErrExists, db)
                | Some db' \<Rightarrow> (Inr user, db'))
             else (Inl (Other ''not valid type''), db))"

text \<open>
  \<open>SELECT u.* FROM users u JOIN subscribes s ON u.id = s.subscriberID WHERE s.userID = ?\<close>:
  one row for every pair of a matching edge and the user it names as subscriber.
\<close>

definition subscribed_rows :: "database \<Rightarrow> int \<Rightarrow> users_row list" where
  "subscribed_rows db userID =
     concat (map (\<lambda>s. filter (\<lambda>u. c_id u = s_subscriberID s) (users db))
                 (filter (\<lambda>s. s_userID s = userID) (subscribes db)))"

definition GetSubscribedUsers :: "database \<Rightarrow> int \<Rightarrow> error + User list" where
  "GetSubscribedUsers db userID =
     (case scan_rows Scan8 (subscribed_rows db userID) [] of
        Inl err \<Rightarrow> Inl err
      | Inr us \<Rightarrow> if length us = 0 then Inl ErrNoUser else Inr us)"

definition GetUserByTelegram :: "database \<Rightarrow> string \<Rightarrow> error + User" where
  "GetUserByTelegram db telegram =
     (case find (\<lambda>r. c_telegram r = telegram) (users db) of
        None \<Rightarrow> Inl ErrNoUser
      | Some r \<Rightarrow> Inr (zero_User\<lparr>ID := c_id r, Username := c_username r,
                                Telegram := c_telegram r\<rparr>))"

text \<open>\<open>WHERE MONTH(birthday) = ? AND DAY(birthday) = ?\<close>: the year takes no part.\<close>

definition birthday_rows :: "database \<Rightarrow> int \<Rightarrow> int \<Rightarrow> users_row list" where
  "birthday_rows db m d =
     filter (\<lambda>r. int (month (c_birthday r)) = m \<and> int (day (c_birthday r)) = d) (users db)"

definition GetUserByBirthday :: "database \<Rightarrow> int \<Rightarrow> int \<Rightarrow> error + User list" where
  "GetUserByBirthday db m d =
     (case scan_rows Scan7 (birthday_rows db m d) [] of
        Inl err \<Rightarrow> Inl err
      | Inr us \<Rightarrow> if length us = 0 then Inl ErrNoUser else Inr us)"

text \<open>
  \<open>UPDATE users SET telegramID = ? WHERE telegram = ?\<close>, with the handle prefixed by
  \<open>@\<close>. The engine reports a value outside \<open>INT\<close> (error 1264) and a duplicate of the
  \<open>UNIQUE\<close> column (error 1062); a row that already holds the value is not counted as
  affected.
\<close>

definition UpdateUser :: "mysql \<Rightarrow> database \<Rightarrow> int \<Rightarrow> string \<Rightarrow> error option \<times> database" where
  "UpdateUser eng db telegramID telegram =
     (let hit = (\<lambda>r. c_telegram r = ''@'' @ telegram);
          changed = filter (\<lambda>r. c_telegramID r \<noteq> Some telegramID) (filter hit (users db));
          rows = map (\<lambda>r. if hit r then r\<lparr>c_telegramID := Some telegramID\<rparr> else r) (users db)
      in if changed = [] then (Some (Other ''no rows updated''), db)
         else if \<not> (- (2 ^ 31) \<le> telegramID \<and> telegramID < 2 ^ 31)
           then (Some (Other (errmsg eng 1264)), db)
         else if \<not> distinct (bound_ids rows) then (Some (Other (errmsg eng 1062)), db)
         else (None, db\<lparr>users := rows\<rparr>))"

subsection \<open>The session manager\<close>

record Session =
  ID_sess :: int
  Login_sess :: string
  Useragent :: string

type_synonym SessionID = string

text \<open>
  Modelled from the spec: package \<open>sessions\<close> is not among the sources, only its use in
  the handlers and their tests is. \<open>SessionManagerInterface\<close> has the two operations of
  the Session Store: \<open>Create\<close> stores a session under a fresh token and returns the token
  or an error, and may change the store; \<open>Check\<close> is a point lookup without side effect
  that returns the session or nothing. The handlers are stated for every implementation
  over every type \<open>'st\<close> of store states.
\<close>

record 'st SessionManagerInterface =
  Create :: "'st \<Rightarrow> Session \<Rightarrow> (error + SessionID) \<times> 'st"
  Check :: "'st \<Rightarrow> SessionID \<Rightarrow> Session option"

subsection \<open>The HTTP handlers\<close>

text \<open>
  A request as the handlers see it: the outcome of \<open>io.ReadAll\<close> followed by
  \<open>json.Unmarshal\<close> into the handler's form, the \<open>Authorization\<close> header (empty when
  absent) and the user agent.
\<close>

datatype 'f body = ReadError | BadJSON | Form 'f

record 'f Request =
  Body :: "'f body"
  Authorization :: string
  UserAgent :: string

text \<open>
  A response: the status and what was written. \<open>Plain\<close> is the text written by
  \<open>http.Error\<close>; the other contents are the JSON documents the handlers encode. Logging
  and a failing \<open>w.Write\<close>, which is only logged, are left out.
\<close>

datatype content =
    Plain string
  | ErrorsJSON "(string \<times> string) list list"
  | SessionJSON SessionID
  | UsersJSON "User list"
  | Empty

record Response =
  Status :: nat
  Content :: content

definition http_Error :: "string \<Rightarrow> nat \<Rightarrow> Response" where
  "http_Error msg code = \<lparr>Status = code, Content = Plain (msg @ [CHR 0x0A])\<rparr>"

definition ErrReading :: string where
  \<open>ErrReading = ''{"message": "error reading request"}''\<close>

definition ErrUserNotFound :: string where
  \<open>ErrUserNotFound = ''{"message":"user not found"}''\<close>

definition ErrInvalidPass :: string where
  \<open>ErrInvalidPass = ''{"message":"invalid password"}''\<close>

definition ErrBadRequest :: string where
  \<open>ErrBadRequest = ''{"message": "bad request"}''\<close>

record AuthForm =
  Username_af :: string
  Password_af :: string

record SubscribeForm =
  UserID :: int
  SubscriberID :: int

text \<open>
  \<open>dataValidation\<close>: the only validation tag in the forms is \<open>required\<close>, which rejects
  the zero value of the field; each rejected field gives one entry, in field order. The
  names of the fields are ASCII, which is all \<open>ToLower\<close> has to handle here.
\<close>

definition ToLower :: "string \<Rightarrow> string" where
  "ToLower s =
     map (\<lambda>c. case map_of (zip ''ABCDEFGHIJKLMNOPQRSTUVWXYZ'' ''abcdefghijklmnopqrstuvwxyz'') c of
                None \<Rightarrow> c
              | Some l \<Rightarrow> l) s"

definition newError :: "string \<Rightarrow> (string \<times> string) list" where
  "newError StructField =
     [(''location'', ''body''), (''param'', ToLower StructField), (''msg'', ''is required'')]"

definition dataValidation_AuthForm :: "AuthForm \<Rightarrow> (string \<times> string) list list" where
  "dataValidation_AuthForm af = (if Password_af af = [] then [newError ''Password''] else [])"

definition dataValidation_SubscribeForm :: "SubscribeForm \<Rightarrow> (string \<times> string) list list" where
  "dataValidation_SubscribeForm sf =
     (if UserID sf = 0 then [newError ''UserID''] else []) @
     (if SubscriberID sf = 0 then [newError ''SubscriberID''] else [])"

definition HasPrefix :: "string \<Rightarrow> string \<Rightarrow> bool" where
  "HasPrefix s prefix \<longleftrightarrow> length prefix \<le> length s \<and> take (length prefix) s = prefix"

text \<open>
  The receiver \<open>UserHandler\<close>: the repository over its database, the session store, and
  the calls made through the two interfaces so far, in order (what the mocks of the
  handler tests observe).
\<close>

datatype call =
    AuthorizeCall string string
  | GetUsersCall
  | SubscribeCall int int int
  | CreateCall Session
  | CheckCall SessionID

record 'st UserHandler =
  UserRepo :: database
  Sessions :: 'st
  Calls :: "call list"

definition call_Authorize ::
  "(string \<Rightarrow> string \<Rightarrow> bool) \<Rightarrow> 'st UserHandler \<Rightarrow> string \<Rightarrow> string
     \<Rightarrow> (error + User) \<times> 'st UserHandler" where
  "call_Authorize cmp h username pass =
     (Authorize cmp (UserRepo h) username pass,
      h\<lparr>Calls := Calls h @ [AuthorizeCall username pass]\<rparr>)"

definition call_GetUsers :: "'st UserHandler \<Rightarrow> (error + User list) \<times> 'st UserHandler" where
  "call_GetUsers h = (GetUsers (UserRepo h), h\<lparr>Calls := Calls h @ [GetUsersCall]\<rparr>)"

definition call_Subscribe ::
  "'st UserHandler \<Rightarrow> int \<Rightarrow> int \<Rightarrow> int \<Rightarrow> (error + User) \<times> 'st UserHandler" where
  "call_Subscribe h userID subscriberID typeOf =
     (case Subscribe (UserRepo h) userID subscriberID typeOf of
        (res, db') \<Rightarrow>
          (res, h\<lparr>UserRepo := db',
                  Calls := Calls h @ [SubscribeCall userID subscriberID typeOf]\<rparr>))"

definition call_Create ::
  "'st SessionManagerInterface \<Rightarrow> 'st UserHandler \<Rightarrow> Session
     \<Rightarrow> (error + SessionID) \<times> 'st UserHandler" where
  "call_Create sm h s =
     (case Create sm (Sessions h) s of
        (res, st') \<Rightarrow> (res, h\<lparr>Sessions := st', Calls := Calls h @ [CreateCall s]\<rparr>))"

definition call_Check ::
  "'st SessionManagerInterface \<Rightarrow> 'st UserHandler \<Rightarrow> SessionID
     \<Rightarrow> Session option \<times> 'st UserHandler" where
  "call_Check sm h token =
     (Check sm (Sessions h) token, h\<lparr>Calls := Calls h @ [CheckCall token]\<rparr>)"

text \<open>
  \<open>Login\<close>. The pair \<open>(u, err)\<close> that \<open>Authorize\<close> returns is kept as the source keeps it, so
  that the comparisons of \<open>err\<close> with the sentinel errors stand where the source has them.
\<close>

definition Login ::
  "(string \<Rightarrow> string \<Rightarrow> bool) \<Rightarrow> 'st SessionManagerInterface \<Rightarrow> 'st UserHandler
     \<Rightarrow> AuthForm Request \<Rightarrow> Response \<times> 'st UserHandler" where
  "Login cmp sm h r =
     (case Body r of
        ReadError \<Rightarrow> (http_Error ErrReading 400, h)
      | BadJSON \<Rightarrow> (http_Error ErrBadRequest 400, h)
      | Form af \<Rightarrow>
          let errors = dataValidation_AuthForm af
          in if errors \<noteq> [] then (\<lparr>Status = 422, Content = ErrorsJSON errors\<rparr>, h)
             else
               (case call_Authorize cmp h (Username_af af) (Password_af af) of
                  (res, h1) \<Rightarrow>
                    let u = (case res of Inl _ \<Rightarrow> None | Inr v \<Rightarrow> Some v);
                        err = (case res of Inl e \<Rightarrow> Some e | Inr _ \<Rightarrow> None)
                    in (case err of
                          Some e \<Rightarrow> (http_Error (Error e) 400, h1)
                        | None \<Rightarrow>
                            if err = Some ErrNoUser then (http_Error ErrUserNotFound 401, h1)
                            else if err = Some ErrBadPass then (http_Error ErrInvalidPass 401, h1)
                            else
                              (case u of
                                 None \<Rightarrow> (http_Error ErrBadRequest 400, h1)
                               | Some u \<Rightarrow>
                                   (case call_Create sm h1
                                           \<lparr>ID_sess = ID u, Login_sess = Username u,
                                            Useragent = UserAgent r\<rparr> of
                                      (Inl _, h2) \<Rightarrow> (\<lparr>Status = 500, Content = Empty\<rparr>, h2)
                                    | (Inr sess, h2) \<Rightarrow>
                                        (\<lparr>Status = 200, Content = SessionJSON sess\<rparr>, h2))))))"

text \<open>The handler \<open>GetUsers\<close> (the suffix tells it from the repository's function).\<close>

definition GetUsers_handler ::
  "'st SessionManagerInterface \<Rightarrow> 'st UserHandler \<Rightarrow> 'f Request \<Rightarrow> Response \<times> 'st UserHandler" where
  "GetUsers_handler sm h r =
     (let token = Authorization r
      in if \<not> HasPrefix token ''Bearer '' then (http_Error ErrUserNotFound 401, h)
         else
           (case call_Check sm h (drop 7 token) of
              (None, h1) \<Rightarrow> (http_Error ErrUserNotFound 401, h1)
            | (Some sess, h1) \<Rightarrow>
                (case call_GetUsers h1 of
                   (Inl err, h2) \<Rightarrow> (http_Error (Error err) 400, h2)
                 | (Inr us, h2) \<Rightarrow> (\<lparr>Status = 200, Content = UsersJSON us\<rparr>, h2))))"

text \<open>
  \<open>SubscribeToUser\<close> and \<open>UnsubscribeToUser\<close> differ in the last argument of
  \<open>Subscribe\<close> only; a handler that returns without writing answers 200 with no content.
\<close>

definition SubscribeToUser ::
  "'st SessionManagerInterface \<Rightarrow> 'st UserHandler \<Rightarrow> SubscribeForm Request
     \<Rightarrow> Response \<times> 'st UserHandler" where
  "SubscribeToUser sm h r =
     (let token = Authorization r
      in if \<not> HasPrefix token ''Bearer '' then (http_Error ErrUserNotFound 401, h)
         else
           (case call_Check sm h (drop 7 token) of
              (None, h1) \<Rightarrow> (http_Error ErrUserNotFound 401, h1)
            | (Some sess, h1) \<Rightarrow>
                (case Body r of
                   ReadError \<Rightarrow> (http_Error ErrReading 400, h1)
                 | BadJSON \<Rightarrow> (http_Error ErrBadRequest 400, h1)
                 | Form sf \<Rightarrow>
                     let errors = dataValidation_SubscribeForm sf
                     in if length errors > 0
                        then (\<lparr>Status = 422, Content = ErrorsJSON errors\<rparr>, h1)
                        else
                          (case call_Subscribe h1 (UserID sf) (SubscriberID sf) 1 of
                             (Inl err, h2) \<Rightarrow> (http_Error ErrBadRequest 400, h2)
                           | (Inr _, h2) \<Rightarrow> (\<lparr>Status = 200, Content = Empty\<rparr>, h2)))))"

definition UnsubscribeToUser ::
  "'st SessionManagerInterface \<Rightarrow> 'st UserHandler \<Rightarrow> SubscribeForm Request
     \<Rightarrow> Response \<times> 'st UserHandler" where
  "UnsubscribeToUser sm h r =
     (let token = Authorization r
      in if \<not> HasPrefix token ''Bearer '' then (http_Error ErrUserNotFound 401, h)
         else
           (case call_Check sm h (drop 7 token) of
              (None, h1) \<Rightarrow> (http_Error ErrUserNotFound 401, h1)
            | (Some sess, h1) \<Rightarrow>
                (case Body r of
                   ReadError \<Rightarrow> (http_Error ErrReading 400, h1)
                 | BadJSON \<Rightarrow> (http_Error ErrBadRequest 400, h1)
                 | Form sf \<Rightarrow>
                     let errors = dataValidation_SubscribeForm sf
                     in if length errors > 0
                        then (\<lparr>Status = 422, Content = ErrorsJSON errors\<rparr>, h1)
                        else
                          (case call_Subscribe h1 (UserID sf) (SubscriberID sf) 0 of
                             (Inl err, h2) \<Rightarrow> (http_Error ErrBadRequest 400, h2)
                           | (Inr _, h2) \<Rightarrow> (\<lparr>Status = 200, Content = Empty\<rparr>, h2)))))"

subsection \<open>The Telegram bot\<close>

text \<open>
  An update as the bot reads it: \<open>update.Message\<close> may be nil, and so may the sender
  \<open>Message.From\<close>; the chat is always there. \<open>tgbotapi.NewMessage(chatID, text)\<close> is the
  constructor of the datatype of outgoing messages.
\<close>

record tg_User =
  ID_tg :: int
  UserName :: string

record tg_Message =
  Text :: string
  Chat_ID :: int
  From :: "tg_User option"

record Update =
  Message :: "tg_Message option"

datatype MessageConfig = NewMessage int string

text \<open>
  A panic ends the process, since nothing recovers from it. \<open>s[i:]\<close> panics when \<open>i\<close>
  exceeds the length of \<open>s\<close>.
\<close>

datatype panic = slice_bounds_out_of_range nat nat | nil_pointer_dereference

definition slice_from :: "string \<Rightarrow> nat \<Rightarrow> panic + string" where
  "slice_from s i =
     (if i > length s then Inl (slice_bounds_out_of_range i (length s)) else Inr (drop i s))"

fun digits :: "nat \<Rightarrow> string" where
  "digits n = (if n < 10 then [digit n] else digits (n div 10) @ [digit n])"

definition FormatInt :: "int \<Rightarrow> string" where
  "FormatInt i = (if i < 0 then ''-'' @ digits (nat (- i)) else digits (nat i))"

definition welcome_text :: string where
  "welcome_text =
    [CHR 0xD0, CHR 0x94, CHR 0xD0, CHR 0xBE, CHR 0xD0, CHR 0xB1, CHR 0xD1, CHR 0x80,
     CHR 0xD0, CHR 0xBE, CHR 0x20, CHR 0xD0, CHR 0xBF, CHR 0xD0, CHR 0xBE, CHR 0xD0,
     CHR 0xB6, CHR 0xD0, CHR 0xB0, CHR 0xD0, CHR 0xBB, CHR 0xD0, CHR 0xBE, CHR 0xD0,
     CHR 0xB2, CHR 0xD0, CHR 0xB0, CHR 0xD1, CHR 0x82, CHR 0xD1, CHR 0x8C, CHR 0x2E,
     CHR 0x20, CHR 0xD0, CHR 0x9D, CHR 0xD0, CHR 0xB0, CHR 0xD0, CHR 0xBF, CHR 0xD0,
     CHR 0xB8, CHR 0xD1, CHR 0x88, CHR 0xD0, CHR 0xB8, CHR 0xD1, CHR 0x82, CHR 0xD0,
     CHR 0xB5, CHR 0x20, CHR 0x2F, CHR 0x75, CHR 0x73, CHR 0x65, CHR 0x72, CHR 0x73,
     CHR 0x2C, CHR 0x20, CHR 0xD1, CHR 0x87, CHR 0xD1, CHR 0x82, CHR 0xD0, CHR 0xBE,
     CHR 0xD0, CHR 0xB1, CHR 0xD1, CHR 0x8B, CHR 0x20, CHR 0xD1, CHR 0x83, CHR 0xD0,
     CHR 0xB2, CHR 0xD0, CHR 0xB8, CHR 0xD0, CHR 0xB4, CHR 0xD0, CHR 0xB5, CHR 0xD1,
     CHR 0x82, CHR 0xD1, CHR 0x8C, CHR 0x20, CHR 0xD0, CHR 0xB2, CHR 0xD1, CHR 0x81,
     CHR 0xD0, CHR 0xB5, CHR 0xD1, CHR 0x85, CHR 0x20, CHR 0xD0, CHR 0xBF, CHR 0xD0,
     CHR 0xBE, CHR 0xD0, CHR 0xBB, CHR 0xD1, CHR 0x8C, CHR 0xD0, CHR 0xB7, CHR 0xD0,
     CHR 0xBE, CHR 0xD0, CHR 0xB2, CHR 0xD0, CHR 0xB0, CHR 0xD1, CHR 0x82, CHR 0xD0,
     CHR 0xB5, CHR 0xD0, CHR 0xBB, CHR 0xD0, CHR 0xB5, CHR 0xD0, CHR 0xB9, CHR 0x2E,
     CHR 0x0A, CHR 0xD0, CHR 0x9D, CHR 0xD0, CHR 0xB0, CHR 0xD0, CHR 0xBF, CHR 0xD0,
     CHR 0xB8, CHR 0xD1, CHR 0x88, CHR 0xD0, CHR 0xB8, CHR 0xD1, CHR 0x82, CHR 0xD0,
     CHR 0xB5, CHR 0x20, CHR 0x2F, CHR 0x73, CHR 0x75, CHR 0x62, CHR 0x73, CHR 0x63,
     CHR 0x72, CHR 0x69, CHR 0x62, CHR 0x65, CHR 0x20, CHR 0xD0, CHR 0xB8, CHR 0xD0,
     CHR 0xBB, CHR 0xD0, CHR 0xB8, CHR 0x20, CHR 0x2F, CHR 0x75, CHR 0x6E, CHR 0x73,
     CHR 0x75, CHR 0x62, CHR 0x73, CHR 0x63, CHR 0x72, CHR 0x69, CHR 0x62, CHR 0x65,
     CHR 0x2C, CHR 0x20, CHR 0xD0, CHR 0xB0, CHR 0x20, CHR 0xD0, CHR 0xBF, CHR 0xD0,
     CHR 0xBE, CHR 0xD1, CHR 0x81, CHR 0xD0, CHR 0xBB, CHR 0xD0, CHR 0xB5, CHR 0x20,
     CHR 0x69, CHR 0x64, CHR 0x20, CHR 0xD0, CHR 0xB4, CHR 0xD0, CHR 0xBB, CHR 0xD1,
     CHR 0x8F, CHR 0x20, CHR 0xD0, CHR 0xBF, CHR 0xD0, CHR 0xBE, CHR 0xD0, CHR 0xB4,
     CHR 0xD0, CHR 0xBF, CHR 0xD0, CHR 0xB8, CHR 0xD1, CHR 0x81, CHR 0xD0, CHR 0xBA,
     CHR 0xD0, CHR 0xB8, CHR 0x20, CHR 0xD0, CHR 0xBE, CHR 0xD1, CHR 0x82, CHR 0xD0,
     CHR 0xBF, CHR 0xD0, CHR 0xB8, CHR 0xD1, CHR 0x81, CHR 0xD0, CHR 0xBA, CHR 0xD0,
     CHR 0xB8, CHR 0x20, CHR 0xD0, CHR 0xBD, CHR 0xD0, CHR 0xB0, CHR 0x20, CHR 0xD0,
     CHR 0xBF, CHR 0xD0, CHR 0xBE, CHR 0xD0, CHR 0xBB, CHR 0xD1, CHR 0x8C, CHR 0xD0,
     CHR 0xB7, CHR 0xD0, CHR 0xBE, CHR 0xD0, CHR 0xB2, CHR 0xD0, CHR 0xB0, CHR 0xD1,
     CHR 0x82, CHR 0xD0, CHR 0xB5, CHR 0xD0, CHR 0xBB, CHR 0xD1, CHR 0x8F, CHR 0x2E,
     CHR 0x0A, CHR 0xD0, CHR 0x9D, CHR 0xD0, CHR 0xB0, CHR 0xD0, CHR 0xBF, CHR 0xD1,
     CHR 0x80, CHR 0xD0, CHR 0xB8, CHR 0xD0, CHR 0xBC, CHR 0xD0, CHR 0xB5, CHR 0xD1,
     CHR 0x80, CHR 0x2C, CHR 0x20, CHR 0x2F, CHR 0x73, CHR 0x75, CHR 0x62, CHR 0x73,
     CHR 0x63, CHR 0x72, CHR 0x69, CHR 0x62, CHR 0x65, CHR 0x20, CHR 0x31]"

definition subscribed_text :: string where
  "subscribed_text =
    [CHR 0xD0, CHR 0x92, CHR 0xD1, CHR 0x8B, CHR 0x20, CHR 0xD0, CHR 0xBF, CHR 0xD0,
     CHR 0xBE, CHR 0xD0, CHR 0xB4, CHR 0xD0, CHR 0xBF, CHR 0xD0, CHR 0xB8, CHR 0xD1,
     CHR 0x81, CHR 0xD0, CHR 0xB0, CHR 0xD0, CHR 0xBB, CHR 0xD0, CHR 0xB8, CHR 0xD1,
     CHR 0x81, CHR 0xD1, CHR 0x8C, CHR 0x20, CHR 0xD0, CHR 0xBD, CHR 0xD0, CHR 0xB0,
     CHR 0x20]"

definition unsubscribed_text :: string where
  "unsubscribed_text =
    [CHR 0xD0, CHR 0x92, CHR 0xD1, CHR 0x8B, CHR 0x20, CHR 0xD0, CHR 0xBE, CHR 0xD1,
     CHR 0x82, CHR 0xD0, CHR 0xBF, CHR 0xD0, CHR 0xB8, CHR 0xD1, CHR 0x81, CHR 0xD0,
     CHR 0xB0, CHR 0xD0, CHR 0xBB, CHR 0xD0, CHR 0xB8, CHR 0xD1, CHR 0x81, CHR 0xD1,
     CHR 0x8C, CHR 0x20, CHR 0xD0, CHR 0xBE, CHR 0xD1, CHR 0x82, CHR 0x20]"

definition fio_label :: string where
  "fio_label =
    [CHR 0x20, CHR 0xD0, CHR 0xA4, CHR 0xD0, CHR 0x98, CHR 0xD0, CHR 0x9E, CHR 0x3A,
     CHR 0x20]"

text \<open>
  A command handler gets \<open>strconv.Atoi\<close> and the database engine besides the update and
  the repository, and returns the replies and the database it leaves, or panics.
\<close>

type_synonym handler =
  "(string \<Rightarrow> error + int) \<Rightarrow> mysql \<Rightarrow> Update \<Rightarrow> database
     \<Rightarrow> panic + (MessageConfig list \<times> database)"

definition usersListHandler :: handler where
  "usersListHandler Atoi eng update db =
     (case GetUsers db of
        Inl err \<Rightarrow> Inr ([], db)
      | Inr us \<Rightarrow>
          (case Message update of
             None \<Rightarrow> Inl nil_pointer_dereference
           | Some m \<Rightarrow>
               Inr (map (\<lambda>u. NewMessage (Chat_ID m)
                              (''ID: '' @ FormatInt (ID u) @ fio_label @ FirstName u @ '' ''
                                 @ MiddleName u @ '' '' @ LastName u @ '' '' @ Birthday u
                                 @ '' '' @ Telegram u)) us,
                    db)))"

definition startHandler :: handler where
  "startHandler Atoi eng update db =
     (case Message update of
        None \<Rightarrow> Inl nil_pointer_dereference
      | Some m \<Rightarrow>
          (case From m of
             None \<Rightarrow> Inl nil_pointer_dereference
           | Some sender \<Rightarrow>
               (case UpdateUser eng db (ID_tg sender) (UserName sender) of
                  (Some err, db') \<Rightarrow> Inr ([NewMessage (Chat_ID m) (Error err)], db')
                | (None, db') \<Rightarrow> Inr ([NewMessage (Chat_ID m) welcome_text], db'))))"

definition subscribeHandler :: handler where
  "subscribeHandler Atoi eng update db =
     (case Message update of
        None \<Rightarrow> Inl nil_pointer_dereference
      | Some m \<Rightarrow>
          (case slice_from (Text m) 11 of
             Inl p \<Rightarrow> Inl p
           | Inr arg \<Rightarrow>
               (case Atoi arg of
                  Inl err \<Rightarrow> Inr ([NewMessage (Chat_ID m) (Error err)], db)
                | Inr userID \<Rightarrow>
                    (case From m of
                       None \<Rightarrow> Inl nil_pointer_dereference
                     | Some sender \<Rightarrow>
                         (case GetUserByTelegram db (''@'' @ UserName sender) of
                            Inl err \<Rightarrow> Inr ([NewMessage (Chat_ID m) (Error err)], db)
                          | Inr u \<Rightarrow>
                              (case Subscribe db userID (ID u) 1 of
                                 (Inl err, db') \<Rightarrow>
                                   Inr ([NewMessage (Chat_ID m) (Error err)], db')
                               | (Inr subUser, db') \<Rightarrow>
                                   Inr ([NewMessage (Chat_ID m)
                                           (subscribed_text @ Telegram subUser)], db')))))))"

definition unsubscribeHandler :: handler where
  "unsubscribeHandler Atoi eng update db =
     (case Message update of
        None \<Rightarrow> Inl nil_pointer_dereference
      | Some m \<Rightarrow>
          (case slice_from (Text m) 13 of
             Inl p \<Rightarrow> Inl p
           | Inr arg \<Rightarrow>
               (case Atoi arg of
                  Inl err \<Rightarrow> Inr ([NewMessage (Chat_ID m) (Error err)], db)
                | Inr userID \<Rightarrow>
                    (case From m of
                       None \<Rightarrow> Inl nil_pointer_dereference
                     | Some sender \<Rightarrow>
                         (case GetUserByTelegram db (''@'' @ UserName sender) of
                            Inl err \<Rightarrow> Inr ([NewMessage (Chat_ID m) (Error err)], db)
                          | Inr u \<Rightarrow>
                              (case Subscribe db userID (ID u) 0 of
                                 (Inl err, db') \<Rightarrow>
                                   Inr ([NewMessage (Chat_ID m) (Error err)], db')
                               | (Inr subUser, db') \<Rightarrow>
                                   Inr ([NewMessage (Chat_ID m)
                                           (unsubscribed_text @ Telegram subUser)], db')))))))"

text \<open>
  The registry \<open>commandHandlers\<close> is a Go map, ranged over in no fixed order; it is a list
  here. No command is a prefix of another (\<open>one_command_matches\<close> below), so at most one
  entry matches a text and the order does not show.
\<close>

definition commandHandlers :: "(string \<times> handler) list" where
  "commandHandlers =
     [(''/subscribe'', subscribeHandler),
      (''/unsubscribe'', unsubscribeHandler),
      (''/start'', startHandler),
      (''/users'', usersListHandler)]"

definition updateHandler :: handler where
  "updateHandler Atoi eng update db =
     (case Message update of
        None \<Rightarrow> Inr ([], db)
      | Some m \<Rightarrow>
          (case find (\<lambda>(cmd, handler). HasPrefix (Text m) cmd) commandHandlers of
             Some (cmd, handler) \<Rightarrow> handler Atoi eng update db
           | None \<Rightarrow> Inr ([], db)))"

subsection \<open>The notification cycle\<close>

definition greeting_prefix :: string where
  "greeting_prefix =
    [CHR 0xD0, CHR 0xA1, CHR 0xD0, CHR 0xB5, CHR 0xD0, CHR 0xB3, CHR 0xD0, CHR 0xBE,
     CHR 0xD0, CHR 0xB4, CHR 0xD0, CHR 0xBD, CHR 0xD1, CHR 0x8F, CHR 0x20, CHR 0xD0,
     CHR 0xB4, CHR 0xD0, CHR 0xB5, CHR 0xD0, CHR 0xBD, CHR 0xD1, CHR 0x8C, CHR 0x20,
     CHR 0xD1, CHR 0x80, CHR 0xD0, CHR 0xBE, CHR 0xD0, CHR 0xB6, CHR 0xD0, CHR 0xB4,
     CHR 0xD0, CHR 0xB5, CHR 0xD0, CHR 0xBD, CHR 0xD0, CHR 0xB8, CHR 0xD1, CHR 0x8F,
     CHR 0x20, CHR 0xD1, CHR 0x83, CHR 0x20]"

definition greeting_suffix :: string where
  "greeting_suffix =
    [CHR 0x21, CHR 0x20, CHR 0xD0, CHR 0x9F, CHR 0xD0, CHR 0xBE, CHR 0xD0, CHR 0xB7,
     CHR 0xD0, CHR 0xB4, CHR 0xD1, CHR 0x80, CHR 0xD0, CHR 0xB0, CHR 0xD0, CHR 0xB2,
     CHR 0xD1, CHR 0x8C, CHR 0xD1, CHR 0x82, CHR 0xD0, CHR 0xB5, CHR 0x20, CHR 0xD0,
     CHR 0xB5, CHR 0xD0, CHR 0xB3, CHR 0xD0, CHR 0xBE, CHR 0x21]"

text \<open>
  What a cycle does, in order: a line printed with \<open>fmt.Println\<close> (its label and the
  error), or a call of \<open>bot.Send\<close>. The parameter \<open>Send\<close> is the Telegram API: the error
  it answers a message with, if any.
\<close>

datatype effect = Println string error | Sent MessageConfig

definition sendTelegramNotification ::
  "(MessageConfig \<Rightarrow> error option) \<Rightarrow> int \<Rightarrow> string \<Rightarrow> effect list" where
  "sendTelegramNotification Send chatID employeeName =
     (let msg = NewMessage chatID (greeting_prefix @ employeeName @ greeting_suffix)
      in (case Send msg of
            Some err \<Rightarrow> [Sent msg, Println ''Error sending Telegram message:'' err]
          | None \<Rightarrow> [Sent msg]))"

text \<open>The inner loop \<open>for _, sub := range subscribers\<close>.\<close>

fun range_subscribers ::
  "(MessageConfig \<Rightarrow> error option) \<Rightarrow> User \<Rightarrow> User list \<Rightarrow> effect list" where
  "range_subscribers Send u [] = []"
| "range_subscribers Send u (sub # subscribers) =
     (let str = FirstName u @ '' '' @ MiddleName u @ '' '' @ LastName u
      in sendTelegramNotification Send (TelegramID sub) str)
     @ range_subscribers Send u subscribers"

text \<open>The outer loop \<open>for _, u := range users\<close>; a failing query skips to the next user.\<close>

fun range_users ::
  "(MessageConfig \<Rightarrow> error option) \<Rightarrow> database \<Rightarrow> User list \<Rightarrow> effect list" where
  "range_users Send db [] = []"
| "range_users Send db (u # us) =
     (case GetSubscribedUsers db (ID u) of
        Inl err \<Rightarrow> [Println ''Error fetching subscribers:'' err]
      | Inr subscribers \<Rightarrow> range_subscribers Send u subscribers)
     @ range_users Send db us"

text \<open>\<open>today\<close> is the value of \<open>time.Now()\<close>, of which the cycle reads month and day.\<close>

definition CheckAndSendNotifications ::
  "(MessageConfig \<Rightarrow> error option) \<Rightarrow> database \<Rightarrow> date \<Rightarrow> effect list" where
  "CheckAndSendNotifications Send db today =
     (let m = int (month today);
          d = int (day today)
      in (case GetUserByBirthday db m d of
            Inl err \<Rightarrow> [Println ''Error fetching users:'' err]
          | Inr us \<Rightarrow> range_users Send db us))"

text \<open>The calls of \<open>bot.Send\<close> in a cycle that are addressed to a given account.\<close>

definition sent_to :: "int \<Rightarrow> effect list \<Rightarrow> MessageConfig list" where
  "sent_to chatID es =
     concat (map (\<lambda>e. case e of
                        Sent (NewMessage c t) \<Rightarrow> (if c = chatID then [NewMessage c t] else [])
                      | Println _ _ \<Rightarrow> []) es)"

definition sent :: "effect list \<Rightarrow> MessageConfig list" where
  "sent es = concat (map (\<lambda>e. case e of Sent msg \<Rightarrow> [msg] | Println _ _ \<Rightarrow> []) es)"

subsection \<open>Instances for the examples\<close>

text \<open>
  Stand-ins for the parameters, used only to run the program on concrete inputs: a
  hash that prefixes the salt to the password and rejects more than 72 bytes, an engine
  that accepts dates written \<open>YYYY-MM-DD\<close>, a Telegram API that accepts every message,
  and a decimal \<open>Atoi\<close> without sign.
\<close>

definition sample_generate :: "string \<Rightarrow> string \<Rightarrow> error + string" where
  "sample_generate salt password =
     (if length password > 72 then Inl (Other ''bcrypt: password length exceeds 72 bytes'')
      else Inr (''$2a$10$'' @ salt @ ''.'' @ password))"

definition sample_compare :: "string \<Rightarrow> string \<Rightarrow> bool" where
  "sample_compare hash password \<longleftrightarrow>
     take 7 hash = ''$2a$10$'' \<and> length password < length hash \<and>
     drop (length hash - Suc (length password)) hash = ''.'' @ password"

definition digit_value :: "char \<Rightarrow> nat option" where
  "digit_value = map_of (zip ''0123456789'' [0, 1, 2, 3, 4, 5, 6, 7, 8, 9])"

fun number :: "nat \<Rightarrow> string \<Rightarrow> nat option" where
  "number acc [] = Some acc"
| "number acc (c # cs) =
     (case digit_value c of None \<Rightarrow> None | Some v \<Rightarrow> number (10 * acc + v) cs)"

definition sample_to_date :: "string \<Rightarrow> date option" where
  "sample_to_date s =
     (if length s = 10 \<and> s ! 4 = CHR ''-'' \<and> s ! 7 = CHR ''-'' then
        (case (number 0 (take 4 s), number 0 (take 2 (drop 5 s)), number 0 (drop 8 s)) of
           (Some y, Some m, Some d) \<Rightarrow>
             if 1 \<le> m \<and> m \<le> 12 \<and> 1 \<le> d \<and> d \<le> 31
             then Some \<lparr>year = y, month = m, day = d\<rparr> else None
         | _ \<Rightarrow> None)
      else None)"

definition sample_engine :: mysql where
  "sample_engine =
     \<lparr>to_date = sample_to_date, varchar200 = (\<lambda>s. length s \<le> 200),
      errmsg = (\<lambda>n. ''Error '' @ digits n)\<rparr>"

definition sample_Atoi :: "string \<Rightarrow> error + int" where
  "sample_Atoi s =
     (case (if s = [] then None else number 0 s) of
        None \<Rightarrow> Inl (Other ''strconv.Atoi: invalid syntax'')
      | Some n \<Rightarrow> Inr (int n))"

definition accept_all :: "MessageConfig \<Rightarrow> error option" where
  "accept_all msg = None"

text \<open>
  Modelled from the spec: the session manager of package \<open>sessions\<close> is not among the
  sources. This one keeps the sessions in memory: the entries by token, and the tokens
  its generator will hand out next. \<open>Create\<close> stores the session under the next token and
  fails, leaving the store as it is, when there is none; \<open>Check\<close> looks the token up.
\<close>

record memory_store =
  entries :: "(SessionID \<times> Session) list"
  tokens :: "SessionID list"

definition memory_sessions :: "memory_store SessionManagerInterface" where
  "memory_sessions =
     \<lparr>Create = (\<lambda>st s. case tokens st of
                          [] \<Rightarrow> (Inl (Other ''store unavailable''), st)
                        | t # ts \<Rightarrow> (Inr t, \<lparr>entries = (t, s) # entries st, tokens = ts\<rparr>)),
      Check = (\<lambda>st token. map_of (entries st) token)\<rparr>"

text \<open>
  Three users: Anna (born 1990-06-15) and Clara have bound their Telegram accounts,
  Boris has not. Nobody is subscribed to anybody yet.
\<close>

definition anna :: users_row where
  "anna = \<lparr>c_id = 1, c_username = ''anna'', c_firstname = ''Anna'', c_middlename = ''M'',
     c_lastname = ''Lee'', c_password = ''$2a$10$s1.pw-anna'',
     c_birthday = \<lparr>year = 1990, month = 6, day = 15\<rparr>, c_telegram = ''@anna'',
     c_telegramID = Some 100\<rparr>"

definition boris :: users_row where
  "boris = \<lparr>c_id = 2, c_username = ''boris'', c_firstname = ''Boris'', c_middlename = ''N'',
     c_lastname = ''Kim'', c_password = ''$2a$10$s2.pw-boris'',
     c_birthday = \<lparr>year = 1985, month = 1, day = 2\<rparr>, c_telegram = ''@boris'',
     c_telegramID = None\<rparr>"

definition clara :: users_row where
  "clara = \<lparr>c_id = 3, c_username = ''clara'', c_firstname = ''Clara'', c_middlename = ''O'',
     c_lastname = ''Diaz'', c_password = ''$2a$10$s3.pw-clara'',
     c_birthday = \<lparr>year = 2000, month = 12, day = 31\<rparr>, c_telegram = ''@clara'',
     c_telegramID = Some 300\<rparr>"

definition sample_db :: database where
  "sample_db = \<lparr>users = [anna, boris, clara], subscribes = [],
     users_auto_increment = 4, subscribes_auto_increment = 1\<rparr>"

text \<open>The greeting the cycle sends about Anna.\<close>

definition anna_greeting :: string where
  "anna_greeting = greeting_prefix @ ''Anna M Lee'' @ greeting_suffix"

subsection \<open>A handler and an update for the examples\<close>

definition sample_handler :: "memory_store UserHandler" where
  "sample_handler =
     \<lparr>UserRepo = sample_db,
      Sessions = \<lparr>entries = [(''tok-anna'', \<lparr>ID_sess = 1, Login_sess = ''anna'',
                                              Useragent = ''curl''\<rparr>)],
                  tokens = [''tok-next'']\<rparr>,
      Calls = []\<rparr>"

text \<open>
  Two databases reached from the sample by calls of \<open>Subscribe\<close>: in the first Boris and
  Clara subscribe to Anna, in the second Clara subscribes to Anna twice; and the one
  where Clara subscribes to Anna once.
\<close>

definition followed_db :: database where
  "followed_db = snd (Subscribe (snd (Subscribe sample_db 1 2 1)) 1 3 1)"

definition twice_db :: database where
  "twice_db = snd (Subscribe (snd (Subscribe sample_db 1 3 1)) 1 3 1)"

definition once_db :: database where
  "once_db = snd (Subscribe sample_db 1 3 1)"

subsection \<open>Notions used in the statements\<close>

text \<open>
  The name a greeting carries, the user a row of seven columns scans to, and the calls of
  \<open>bot.Send\<close> that one birthday user's turn of the outer loop makes.
\<close>

definition display_name :: "users_row \<Rightarrow> string" where
  "display_name r = c_firstname r @ '' '' @ c_middlename r @ '' '' @ c_lastname r"

definition User7 :: "users_row \<Rightarrow> User" where
  "User7 r = zero_User\<lparr>ID := c_id r, Username := c_username r,
     FirstName := c_firstname r, MiddleName := c_middlename r, LastName := c_lastname r,
     Birthday := date_text (c_birthday r), Telegram := c_telegram r\<rparr>"

definition sent_about ::
  "(MessageConfig \<Rightarrow> error option) \<Rightarrow> database \<Rightarrow> users_row \<Rightarrow> MessageConfig list" where
  "sent_about Send db r = sent (range_users Send db [User7 r])"

section \<open>Properties\<close>

subsection \<open>Auxiliary facts\<close>

lemma find_unique:
  "distinct (map f xs) \<Longrightarrow> r \<in> set xs \<Longrightarrow> find (\<lambda>x. f x = f r) xs = Some r"
  by (induction xs) (auto simp: image_iff)

lemmas sample_users = anna_def boris_def clara_def

subsection \<open>The operations keep the constraints of the schema\<close>

text \<open>
  The statements below that assume a key to be unique, or the whole of \<open>valid_db\<close>, are
  about databases the program can be in: the sample satisfies the constraints and every
  operation of the repository that writes keeps them.
\<close>

lemma valid_sample_db: "valid_db sample_db"
  by (simp add: valid_db_def sample_db_def bound_ids_def sample_users)

lemma bound_ids_append: "bound_ids (rs @ rs') = bound_ids rs @ bound_ids rs'"
  by (simp add: bound_ids_def)

lemma MakeUser_valid:
  assumes "valid_db db"
  shows "valid_db (snd (MakeUser gen eng salt db username pass firstname middlename lastname
                          birthday telegram))"
proof (cases "MakeUser gen eng salt db username pass firstname middlename lastname
                birthday telegram")
  case (Pair res db')
  show ?thesis
  proof (cases res)
    case (Inl e)
    with Pair have "db' = db"
      by (auto simp: MakeUser_def split: sum.splits option.splits)
    with Pair assms show ?thesis by simp
  next
    case (Inr u)
    with Pair obtain h where
      ins: "insert_users eng db username h firstname middlename lastname birthday telegram =
              Some (ID u, db')"
      by (auto simp: MakeUser_def zero_User_def split: sum.splits option.splits)
    then obtain d where
      fresh: "username \<notin> set (map c_username (users db))"
             "telegram \<notin> set (map c_telegram (users db))"
      and db': "db' = db\<lparr>users := users db @
                 [\<lparr>c_id = users_auto_increment db, c_username = username,
                   c_firstname = firstname, c_middlename = middlename, c_lastname = lastname,
                   c_password = h, c_birthday = d, c_telegram = telegram,
                   c_telegramID = None\<rparr>],
               users_auto_increment := users_auto_increment db + 1\<rparr>"
      by (auto simp: insert_users_def Let_def split: option.splits if_splits)
    from assms have "users_auto_increment db \<notin> set (map c_id (users db))"
      by (auto simp: valid_db_def)
    with assms fresh have "valid_db db'"
      unfolding db' by (auto simp: valid_db_def bound_ids_append) (auto simp: bound_ids_def)
    with Pair show ?thesis by simp
  qed
qed

lemma Subscribe_valid:
  assumes "valid_db db"
  shows "valid_db (snd (Subscribe db userID subscriberID typeOf))"
proof -
  have ins: "valid_db db'" if "insert_subscribes db userID subscriberID = Some db'" for db'
  proof -
    from that have ids: "userID \<in> set (map c_id (users db))"
        "subscriberID \<in> set (map c_id (users db))"
      and db': "db' = db\<lparr>subscribes := subscribes db @
                  [\<lparr>s_id = subscribes_auto_increment db, s_userID = userID,
                    s_subscriberID = subscriberID\<rparr>],
                subscribes_auto_increment := subscribes_auto_increment db + 1\<rparr>"
      by (auto simp: insert_subscribes_def split: if_splits)
    from assms have "subscribes_auto_increment db \<notin> set (map s_id (subscribes db))"
      by (auto simp: valid_db_def)
    with assms ids show ?thesis
      unfolding db' by (auto simp: valid_db_def)
  qed
  have del: "valid_db db'" if "delete_subscribes db userID subscriberID = Some db'" for db'
    using that assms by (auto simp: delete_subscribes_def valid_db_def distinct_map_filter)
  show ?thesis
    using assms ins del
    by (auto simp: Subscribe_def Let_def split: option.splits)
qed

lemma UpdateUser_valid:
  assumes "valid_db db"
  shows "valid_db (snd (UpdateUser eng db telegramID telegram))"
proof -
  let ?rows = "map (\<lambda>r. if c_telegram r = ''@'' @ telegram
                          then r\<lparr>c_telegramID := Some telegramID\<rparr> else r) (users db)"
  have m: "map c_id ?rows = map c_id (users db)"
    "map c_username ?rows = map c_username (users db)"
    "map c_telegram ?rows = map c_telegram (users db)"
    by (simp_all add: o_def if_distrib cong: if_cong)
  have s: "\<forall>r \<in> set ?rows. c_id r < users_auto_increment db"
    using assms by (auto simp: valid_db_def)
  have "valid_db (db\<lparr>users := ?rows\<rparr>)" if "distinct (bound_ids ?rows)"
    using assms that m s
    unfolding valid_db_def
    by (simp del: set_map map_map)
  with assms show ?thesis
    by (simp add: UpdateUser_def Let_def)
qed

subsection \<open>Authentication\<close>

text \<open>
  Claim C3. \<open>Authorize\<close> on a username and a password: when no row of \<open>users\<close> has the
  username the result is \<open>ErrNoUser\<close>; when a row has it (the column is \<open>UNIQUE\<close>, so it
  is the only one) and bcrypt rejects the password against the stored hash the result is
  \<open>ErrBadPass\<close>; otherwise the result is the user of that row, with its id, username and
  hash, and no error.
\<close>

theorem Authorize_cases:
  assumes "distinct (map c_username (users db))"
  shows "((\<forall>r \<in> set (users db). c_username r \<noteq> username) \<longrightarrow>
            Authorize cmp db username pass = Inl ErrNoUser) \<and>
         (\<forall>r \<in> set (users db). c_username r = username \<longrightarrow>
            Authorize cmp db username pass =
              (if cmp (c_password r) pass
               then Inr (zero_User\<lparr>ID := c_id r, Username := username, Password := c_password r\<rparr>)
               else Inl ErrBadPass))"
proof (intro conjI impI ballI)
  assume "\<forall>r \<in> set (users db). c_username r \<noteq> username"
  then have "find (\<lambda>r. c_username r = username) (users db) = None"
    by (simp add: find_None_iff)
  then show "Authorize cmp db username pass = Inl ErrNoUser"
    by (simp add: Authorize_def)
next
  fix r assume r: "r \<in> set (users db)" and u: "c_username r = username"
  from find_unique [OF assms r] u
  have "find (\<lambda>r. c_username r = username) (users db) = Some r" by simp
  then show "Authorize cmp db username pass =
              (if cmp (c_password r) pass
               then Inr (zero_User\<lparr>ID := c_id r, Username := username, Password := c_password r\<rparr>)
               else Inl ErrBadPass)"
    using u by (simp add: Authorize_def Let_def)
qed

theorem Authorize_cases_witness:
  "distinct (map c_username (users sample_db)) \<and>
   ''zed'' \<notin> set (map c_username (users sample_db)) \<and>
   Authorize sample_compare sample_db ''zed'' ''pw-anna'' = Inl ErrNoUser \<and>
   anna \<in> set (users sample_db) \<and> c_username anna = ''anna'' \<and>
   \<not> sample_compare (c_password anna) ''pw'' \<and>
   Authorize sample_compare sample_db ''anna'' ''pw'' = Inl ErrBadPass \<and>
   sample_compare (c_password anna) ''pw-anna'' \<and>
   Authorize sample_compare sample_db ''anna'' ''pw-anna'' =
     Inr (zero_User\<lparr>ID := 1, Username := ''anna'', Password := ''$2a$10$s1.pw-anna''\<rparr>)"
proof -
  have d: "distinct (map c_username (users sample_db))"
    by (simp add: sample_db_def sample_users)
  have a: "anna \<in> set (users sample_db)"
    by (simp add: sample_db_def)
  have z: "\<forall>r \<in> set (users sample_db). c_username r \<noteq> ''zed''"
    by (simp add: sample_db_def sample_users)
  have bad: "\<not> sample_compare (c_password anna) ''pw''"
    by (simp add: sample_compare_def anna_def)
  have good: "sample_compare (c_password anna) ''pw-anna''"
    by (simp add: sample_compare_def anna_def)
  from Authorize_cases [OF d, of "''zed''" sample_compare "''pw-anna''"] z
  have 1: "Authorize sample_compare sample_db ''zed'' ''pw-anna'' = Inl ErrNoUser"
    by blast
  from Authorize_cases [OF d, of "''anna''" sample_compare "''pw''"] a bad
  have 2: "Authorize sample_compare sample_db ''anna'' ''pw'' = Inl ErrBadPass"
    by (auto simp: anna_def)
  from Authorize_cases [OF d, of "''anna''" sample_compare "''pw-anna''"] a good
  have 3: "Authorize sample_compare sample_db ''anna'' ''pw-anna'' =
     Inr (zero_User\<lparr>ID := 1, Username := ''anna'', Password := ''$2a$10$s1.pw-anna''\<rparr>)"
    by (auto simp: anna_def)
  have z': "''zed'' \<notin> set (map c_username (users sample_db))"
    by (simp add: sample_db_def sample_users)
  from d z' 1 a bad 2 good 3 show ?thesis by (simp add: anna_def)
qed

subsection \<open>Scanning rows\<close>

lemma Scan7_User7: "Scan7 r = Inr (User7 r)"
  by (simp add: Scan7_def User7_def)

lemma scan_rows_Scan7: "scan_rows Scan7 rows us = Inr (us @ map User7 rows)"
  by (induction rows arbitrary: us) (simp_all add: Scan7_User7)

lemma scan_rows_Scan8_null:
  "\<exists>r \<in> set rows. c_telegramID r = None \<Longrightarrow> scan_rows Scan8 rows us = Inl scan_null_error"
  by (induction rows arbitrary: us) (auto simp: Scan8_def split: option.splits)

lemma scan_rows_Scan8_bound:
  "\<forall>r \<in> set rows. c_telegramID r \<noteq> None \<Longrightarrow>
     scan_rows Scan8 rows us =
       Inr (us @ map (\<lambda>r. (User7 r)\<lparr>TelegramID := (case c_telegramID r of Some t \<Rightarrow> t | None \<Rightarrow> 0)\<rparr>) rows)"
  by (induction rows arbitrary: us) (auto simp: Scan8_def User7_def split: option.splits)

lemma GetUsers_result:
  "GetUsers db = (if users db = [] then Inl ErrNoUser else Inr (map User7 (users db)))"
  by (simp add: GetUsers_def scan_rows_Scan7)

lemma GetUserByBirthday_result:
  "GetUserByBirthday db m d =
     (if birthday_rows db m d = [] then Inl ErrNoUser else Inr (map User7 (birthday_rows db m d)))"
  by (simp add: GetUserByBirthday_def scan_rows_Scan7)

lemma GetSubscribedUsers_result:
  "GetSubscribedUsers db userID =
     (if \<exists>r \<in> set (subscribed_rows db userID). c_telegramID r = None then Inl scan_null_error
      else if subscribed_rows db userID = [] then Inl ErrNoUser
      else Inr (map (\<lambda>r. (User7 r)\<lparr>TelegramID := (case c_telegramID r of Some t \<Rightarrow> t | None \<Rightarrow> 0)\<rparr>)
                    (subscribed_rows db userID)))"
  by (auto simp: GetSubscribedUsers_def scan_rows_Scan8_null scan_rows_Scan8_bound)

subsection \<open>The sample databases\<close>

lemma sample_db_simps:
  "users sample_db = [anna, boris, clara]" "subscribes sample_db = []"
  "users_auto_increment sample_db = 4" "subscribes_auto_increment sample_db = 1"
  by (simp_all add: sample_db_def)

lemma followed_db_eq:
  "followed_db = \<lparr>users = [anna, boris, clara],
     subscribes = [\<lparr>s_id = 1, s_userID = 1, s_subscriberID = 2\<rparr>,
                   \<lparr>s_id = 2, s_userID = 1, s_subscriberID = 3\<rparr>],
     users_auto_increment = 4, subscribes_auto_increment = 3\<rparr>"
  by (simp add: followed_db_def Subscribe_def insert_subscribes_def sample_db_def sample_users)

lemma twice_db_eq:
  "twice_db = \<lparr>users = [anna, boris, clara],
     subscribes = [\<lparr>s_id = 1, s_userID = 1, s_subscriberID = 3\<rparr>,
                   \<lparr>s_id = 2, s_userID = 1, s_subscriberID = 3\<rparr>],
     users_auto_increment = 4, subscribes_auto_increment = 3\<rparr>"
  by (simp add: twice_db_def Subscribe_def insert_subscribes_def sample_db_def sample_users)

lemma once_db_eq:
  "once_db = \<lparr>users = [anna, boris, clara],
     subscribes = [\<lparr>s_id = 1, s_userID = 1, s_subscriberID = 3\<rparr>],
     users_auto_increment = 4, subscribes_auto_increment = 2\<rparr>"
  by (simp add: once_db_def Subscribe_def insert_subscribes_def sample_db_def sample_users)

lemma followed_rows: "subscribed_rows followed_db 1 = [boris, clara]"
  by (simp add: followed_db_eq subscribed_rows_def sample_users)

lemma june15_rows: "birthday_rows followed_db 6 15 = [anna]"
  by (simp add: followed_db_eq birthday_rows_def sample_users)

subsection \<open>A subscriber without a bound account\<close>

text \<open>
  Claim C7. The list operations answer \<open>ErrNoUser\<close> for an empty result set and the full
  list otherwise. \<open>GetUsers\<close> does (\<open>GetUsers_result\<close>); \<open>GetSubscribedUsers\<close> does not when
  a subscriber has no bound account (\<open>GetSubscribedUsers_result\<close>): in the database where
  Boris and Clara are subscribed to Anna, the result set for Anna has two rows and the
  operation returns the error of scanning Boris's \<open>NULL\<close>, not the list.
\<close>

theorem unbound_subscriber_fails_query:
  "subscribed_rows followed_db 1 = [boris, clara] \<and>
   GetSubscribedUsers followed_db 1 = Inl scan_null_error"
  by (simp add: GetSubscribedUsers_result followed_rows boris_def)

text \<open>
  Claim C1. On Anna's birthday, with Boris (no bound account) and Clara (account 300)
  subscribed to her, the cycle should send exactly one notification to 300. It sends
  none: the query for Anna's subscribers fails on Boris's row, the cycle prints the error
  and goes on to the next birthday user.
\<close>

theorem unbound_subscriber_silences_cycle:
  "c_telegramID boris = None \<and> c_telegramID clara = Some 300 \<and>
   subscribed_rows followed_db (c_id anna) = [boris, clara] \<and>
   CheckAndSendNotifications Send followed_db \<lparr>year = 2025, month = 6, day = 15\<rparr> =
     [Println ''Error fetching subscribers:'' scan_null_error] \<and>
   sent_to 300 (CheckAndSendNotifications Send followed_db \<lparr>year = 2025, month = 6, day = 15\<rparr>) = []"
proof -
  have a: "ID (User7 anna) = 1" by (simp add: User7_def anna_def)
  have q: "GetSubscribedUsers followed_db 1 = Inl scan_null_error"
    by (simp add: GetSubscribedUsers_result followed_rows boris_def)
  have c: "CheckAndSendNotifications Send followed_db \<lparr>year = 2025, month = 6, day = 15\<rparr> =
     [Println ''Error fetching subscribers:'' scan_null_error]"
    by (simp add: CheckAndSendNotifications_def GetUserByBirthday_result june15_rows a q)
  have i: "c_id anna = 1" by (simp add: anna_def)
  have b: "c_telegramID boris = None" by (simp add: boris_def)
  have l: "c_telegramID clara = Some 300" by (simp add: clara_def)
  show ?thesis
    by (simp add: c sent_to_def followed_rows i b l)
qed

subsection \<open>The notification cycle\<close>

lemma sent_append: "sent (es @ fs) = sent es @ sent fs"
  by (simp add: sent_def)

lemma sent_sendTelegramNotification:
  "sent (sendTelegramNotification Send chatID name) =
     [NewMessage chatID (greeting_prefix @ name @ greeting_suffix)]"
  by (simp add: sendTelegramNotification_def sent_def Let_def split: option.splits)

lemma sent_range_subscribers:
  "sent (range_subscribers Send u subs) =
     map (\<lambda>sub. NewMessage (TelegramID sub)
            (greeting_prefix @ (FirstName u @ '' '' @ MiddleName u @ '' '' @ LastName u)
               @ greeting_suffix)) subs"
  by (induction subs) (simp_all add: sent_append sent_sendTelegramNotification Let_def, simp add: sent_def)

lemma range_users_Cons:
  "range_users Send db (u # us) = range_users Send db [u] @ range_users Send db us"
  by simp

lemma sent_range_users:
  "sent (range_users Send db (map User7 rows)) = concat (map (sent_about Send db) rows)"
proof (induction rows)
  case Nil
  show ?case by (simp add: sent_def)
next
  case (Cons r rows)
  have "sent (range_users Send db (User7 r # map User7 rows)) =
          sent (range_users Send db [User7 r]) @ sent (range_users Send db (map User7 rows))"
    by (subst range_users_Cons) (rule sent_append)
  with Cons show ?case by (simp add: sent_about_def)
qed

lemma sent_cycle:
  "sent (CheckAndSendNotifications Send db today) =
     concat (map (sent_about Send db) (birthday_rows db (int (month today)) (int (day today))))"
  by (simp add: CheckAndSendNotifications_def GetUserByBirthday_result sent_range_users Let_def)
     (simp add: sent_def)

lemma bound_ids_map:
  "\<forall>s \<in> set rows. c_telegramID s \<noteq> None \<Longrightarrow>
     map (\<lambda>r. case c_telegramID r of Some t \<Rightarrow> t | None \<Rightarrow> 0) rows = bound_ids rows"
  by (induction rows) (auto simp: bound_ids_def)

lemma length_bound_ids:
  "\<forall>s \<in> set rows. c_telegramID s \<noteq> None \<Longrightarrow> length (bound_ids rows) = length rows"
  by (induction rows) (auto simp: bound_ids_def)

lemma sent_about_bound:
  assumes "\<forall>s \<in> set (subscribed_rows db (c_id r)). c_telegramID s \<noteq> None"
  shows "sent_about Send db r =
           map (\<lambda>t. NewMessage t (greeting_prefix @ display_name r @ greeting_suffix))
               (bound_ids (subscribed_rows db (c_id r)))"
proof -
  let ?rows = "subscribed_rows db (c_id r)"
  have n: "\<not> (\<exists>s \<in> set ?rows. c_telegramID s = None)" using assms by blast
  have u: "ID (User7 r) = c_id r" "FirstName (User7 r) = c_firstname r"
    "MiddleName (User7 r) = c_middlename r" "LastName (User7 r) = c_lastname r"
    by (simp_all add: User7_def)
  show ?thesis
  proof (cases "?rows = []")
    case True
    then show ?thesis
      by (simp add: sent_about_def u GetSubscribedUsers_result bound_ids_def sent_def)
  next
    case False
    have "GetSubscribedUsers db (c_id r) =
        Inr (map (\<lambda>r. (User7 r)\<lparr>TelegramID := (case c_telegramID r of Some t \<Rightarrow> t | None \<Rightarrow> 0)\<rparr>)
                 ?rows)"
      by (simp only: GetSubscribedUsers_result n False if_False)
    then have "sent_about Send db r =
        map (\<lambda>s. NewMessage (case c_telegramID s of Some t \<Rightarrow> t | None \<Rightarrow> 0)
               (greeting_prefix @ display_name r @ greeting_suffix)) ?rows"
      by (simp add: sent_about_def u sent_range_subscribers display_name_def o_def)
    also have "\<dots> = map (\<lambda>t. NewMessage t (greeting_prefix @ display_name r @ greeting_suffix))
               (map (\<lambda>s. case c_telegramID s of Some t \<Rightarrow> t | None \<Rightarrow> 0) ?rows)"
      by (simp add: o_def)
    finally show ?thesis using bound_ids_map [OF assms] by simp
  qed
qed

lemma filter_key_length:
  "distinct (map f xs) \<Longrightarrow> k \<in> set (map f xs) \<Longrightarrow> length (filter (\<lambda>x. f x = k) xs) = 1"
proof (induction xs)
  case Nil
  then show ?case by simp
next
  case (Cons x xs)
  show ?case
  proof (cases "f x = k")
    case True
    with Cons.prems have "\<forall>y \<in> set xs. f y \<noteq> k" by (auto simp: image_iff)
    then have "filter (\<lambda>x. f x = k) xs = []" by (simp add: filter_empty_conv)
    with True show ?thesis by simp
  next
    case False
    with Cons show ?thesis by simp
  qed
qed

lemma length_join:
  assumes "distinct (map c_id us)" and "\<forall>s \<in> set es. s_subscriberID s \<in> set (map c_id us)"
  shows "length (concat (map (\<lambda>s. filter (\<lambda>u. c_id u = s_subscriberID s) us) es)) = length es"
  using assms(2)
proof (induction es)
  case Nil
  show ?case by simp
next
  case (Cons e es)
  from Cons.prems have "s_subscriberID e \<in> set (map c_id us)" by simp
  from filter_key_length [OF assms(1) this] Cons show ?case by simp
qed

lemma length_subscribed_rows:
  assumes "valid_db db"
  shows "length (subscribed_rows db u) = length (filter (\<lambda>s. s_userID s = u) (subscribes db))"
proof -
  from assms have d: "distinct (map c_id (users db))"
    and f: "\<forall>s \<in> set (subscribes db). s_subscriberID s \<in> set (map c_id (users db))"
    by (simp_all add: valid_db_def)
  from f have "\<forall>s \<in> set (filter (\<lambda>s. s_userID s = u) (subscribes db)).
      s_subscriberID s \<in> set (map c_id (users db))" by simp
  from length_join [OF d this] show ?thesis by (simp add: subscribed_rows_def)
qed

text \<open>
  Claim C2, as the code has it. A user is selected by \<open>GetUserByBirthday\<close> for a month and
  a day exactly when the month and day of the stored birth date are these, whatever the
  year. The messages a cycle sends are those about each selected user, in turn. About a
  selected user all of whose subscribers have a bound account, the cycle sends one message
  for every row of the join, addressed to the subscriber's account and carrying the
  user's display name; in a database that satisfies the schema these rows are as many as
  the subscription edges to the user, so a subscriber with two edges gets two messages.
\<close>

theorem birthday_cycle:
  "(\<forall>r \<in> set (users db).
      r \<in> set (birthday_rows db m d) \<longleftrightarrow>
        int (month (c_birthday r)) = m \<and> int (day (c_birthday r)) = d) \<and>
   GetUserByBirthday db m d =
     (if birthday_rows db m d = [] then Inl ErrNoUser
      else Inr (map User7 (birthday_rows db m d))) \<and>
   sent (CheckAndSendNotifications Send db today) =
     concat (map (sent_about Send db)
               (birthday_rows db (int (month today)) (int (day today)))) \<and>
   (\<forall>r :: users_row. (\<forall>s \<in> set (subscribed_rows db (c_id r)). c_telegramID s \<noteq> None) \<longrightarrow>
      sent_about Send db r =
        map (\<lambda>t. NewMessage t (greeting_prefix @ display_name r @ greeting_suffix))
            (bound_ids (subscribed_rows db (c_id r))) \<and>
      (valid_db db \<longrightarrow>
         length (bound_ids (subscribed_rows db (c_id r))) =
           length (filter (\<lambda>s. s_userID s = c_id r) (subscribes db))))"
proof (intro conjI allI impI ballI)
  fix r assume "r \<in> set (users db)"
  then show "r \<in> set (birthday_rows db m d) \<longleftrightarrow>
        int (month (c_birthday r)) = m \<and> int (day (c_birthday r)) = d"
    by (simp add: birthday_rows_def)
next
  show "GetUserByBirthday db m d =
     (if birthday_rows db m d = [] then Inl ErrNoUser
      else Inr (map User7 (birthday_rows db m d)))"
    by (rule GetUserByBirthday_result)
next
  show "sent (CheckAndSendNotifications Send db today) =
     concat (map (sent_about Send db)
               (birthday_rows db (int (month today)) (int (day today))))"
    by (rule sent_cycle)
next
  fix r :: users_row
  assume "\<forall>s \<in> set (subscribed_rows db (c_id r)). c_telegramID s \<noteq> None"
  then show "sent_about Send db r =
        map (\<lambda>t. NewMessage t (greeting_prefix @ display_name r @ greeting_suffix))
            (bound_ids (subscribed_rows db (c_id r)))"
    by (rule sent_about_bound)
next
  fix r :: users_row
  assume b: "\<forall>s \<in> set (subscribed_rows db (c_id r)). c_telegramID s \<noteq> None"
    and v: "valid_db db"
  from length_bound_ids [OF b] length_subscribed_rows [OF v]
  show "length (bound_ids (subscribed_rows db (c_id r))) =
           length (filter (\<lambda>s. s_userID s = c_id r) (subscribes db))"
    by simp
qed


text \<open>
  The scenario of the specification: Anna, born 1990-06-15, with Clara subscribed once.
  On 2025-06-15 the cycle sends one greeting to Clara's account, on 2025-06-16 none.
\<close>

lemma valid_once_db: "valid_db once_db"
  by (simp add: valid_db_def once_db_eq bound_ids_def sample_users)

lemma once_rows: "subscribed_rows once_db 1 = [clara]"
  by (simp add: once_db_eq subscribed_rows_def sample_users)

lemma once_birthdays:
  "birthday_rows once_db 6 15 = [anna]" "birthday_rows once_db 6 16 = []"
  by (simp_all add: once_db_eq birthday_rows_def sample_users)

theorem birthday_cycle_witness:
  "valid_db once_db \<and> anna \<in> set (users once_db) \<and>
   anna \<in> set (birthday_rows once_db 6 15) \<and>
   anna \<notin> set (birthday_rows once_db 6 16) \<and>
   subscribed_rows once_db (c_id anna) = [clara] \<and> c_telegramID clara = Some 300 \<and>
   GetUserByBirthday once_db 6 15 = Inr [User7 anna] \<and>
   GetUserByBirthday once_db 6 16 = Inl ErrNoUser \<and>
   sent (CheckAndSendNotifications accept_all once_db \<lparr>year = 2025, month = 6, day = 15\<rparr>) =
     [NewMessage 300 anna_greeting] \<and>
   sent (CheckAndSendNotifications accept_all once_db \<lparr>year = 2025, month = 6, day = 16\<rparr>) = [] \<and>
   length (filter (\<lambda>s. s_userID s = c_id anna) (subscribes once_db)) = 1"
proof -
  note on = birthday_cycle [of once_db 6 15 accept_all "\<lparr>year = 2025, month = 6, day = 15\<rparr>"]
  note off = birthday_cycle [of once_db 6 16 accept_all "\<lparr>year = 2025, month = 6, day = 16\<rparr>"]
  have i: "c_id anna = 1" by (simp add: anna_def)
  have t: "c_telegramID clara = Some 300" by (simp add: clara_def)
  have n: "display_name anna = ''Anna M Lee''" by (simp add: display_name_def anna_def)
  have u: "anna \<in> set (users once_db)" by (simp add: once_db_eq)
  have b: "\<forall>s \<in> set (subscribed_rows once_db (c_id anna)). c_telegramID s \<noteq> None"
    by (simp add: i once_rows t)
  from on b have a: "sent_about accept_all once_db anna =
      map (\<lambda>t. NewMessage t (greeting_prefix @ display_name anna @ greeting_suffix))
          (bound_ids (subscribed_rows once_db (c_id anna)))"
    by blast
  then have a': "sent_about accept_all once_db anna = [NewMessage 300 anna_greeting]"
    by (simp add: i once_rows bound_ids_def t n anna_greeting_def)
  from on have "sent (CheckAndSendNotifications accept_all once_db
        \<lparr>year = 2025, month = 6, day = 15\<rparr>) =
      concat (map (sent_about accept_all once_db) (birthday_rows once_db 6 15))"
    by simp
  then have 1: "sent (CheckAndSendNotifications accept_all once_db
        \<lparr>year = 2025, month = 6, day = 15\<rparr>) = [NewMessage 300 anna_greeting]"
    by (simp add: once_birthdays a')
  from off have "sent (CheckAndSendNotifications accept_all once_db
        \<lparr>year = 2025, month = 6, day = 16\<rparr>) =
      concat (map (sent_about accept_all once_db) (birthday_rows once_db 6 16))"
    by simp
  then have 2: "sent (CheckAndSendNotifications accept_all once_db
        \<lparr>year = 2025, month = 6, day = 16\<rparr>) = []"
    by (simp add: once_birthdays)
  from on u have 3: "anna \<in> set (birthday_rows once_db 6 15)"
    by (simp add: once_birthdays)
  from off u have 4: "anna \<notin> set (birthday_rows once_db 6 16)"
    by (simp add: once_birthdays)
  from on have 5: "GetUserByBirthday once_db 6 15 = Inr [User7 anna]"
    by (simp add: once_birthdays)
  from off have 6: "GetUserByBirthday once_db 6 16 = Inl ErrNoUser"
    by (simp add: once_birthdays)
  from on b valid_once_db
  have "length (bound_ids (subscribed_rows once_db (c_id anna))) =
          length (filter (\<lambda>s. s_userID s = c_id anna) (subscribes once_db))"
    by blast
  then have 7: "length (filter (\<lambda>s. s_userID s = c_id anna) (subscribes once_db)) = 1"
    by (simp add: i once_rows bound_ids_def t)
  from valid_once_db u 3 4 once_rows i t 5 6 1 2 7 show ?thesis by simp
qed

lemma twice_rows: "subscribed_rows twice_db 1 = [clara, clara]"
  by (simp add: twice_db_eq subscribed_rows_def sample_users)

lemma twice_birthdays: "birthday_rows twice_db 6 15 = [anna]"
  by (simp add: twice_db_eq birthday_rows_def sample_users)

text \<open>
  Claim C2 as stated asks for exactly one notification per subscriber. Clara, subscribed
  to Anna by two calls of \<open>Subscribe\<close>, gets two on Anna's birthday.
\<close>

theorem twice_subscribed_counterexample:
  "bound_ids (filter (\<lambda>r. c_id r = 3) (users twice_db)) = [300] \<and>
   sent_to 300 (CheckAndSendNotifications accept_all twice_db
                  \<lparr>year = 2025, month = 6, day = 15\<rparr>) =
     [NewMessage 300 anna_greeting, NewMessage 300 anna_greeting]"
proof -
  have i: "ID (User7 anna) = 1" "FirstName (User7 anna) = ''Anna''"
    "MiddleName (User7 anna) = ''M''" "LastName (User7 anna) = ''Lee''"
    by (simp_all add: User7_def anna_def)
  have t: "c_telegramID clara = Some 300" by (simp add: clara_def)
  have q: "GetSubscribedUsers twice_db 1 =
      Inr [(User7 clara)\<lparr>TelegramID := 300\<rparr>, (User7 clara)\<lparr>TelegramID := 300\<rparr>]"
    by (simp add: GetSubscribedUsers_result twice_rows t)
  have c: "CheckAndSendNotifications accept_all twice_db \<lparr>year = 2025, month = 6, day = 15\<rparr> =
      [Sent (NewMessage 300 anna_greeting), Sent (NewMessage 300 anna_greeting)]"
    by (simp add: CheckAndSendNotifications_def GetUserByBirthday_result twice_birthdays i q
          sendTelegramNotification_def accept_all_def anna_greeting_def)
  have b: "bound_ids (filter (\<lambda>r. c_id r = 3) (users twice_db)) = [300]"
    by (simp add: twice_db_eq bound_ids_def sample_users)
  show ?thesis by (simp add: b c sent_to_def)
qed

subsection \<open>Subscribing\<close>

text \<open>
  Claim C6, as the code has it. \<open>Subscribe\<close> with \<open>typeOf = 1\<close>: when no user has the id
  \<open>userID\<close> the result is \<open>ErrNoUser\<close> and the database is unchanged. When a user has it
  and \<open>subscriberID\<close> is the id of a user too, the edge is appended to \<open>subscribes\<close>,
  nothing else changes but the counter of that table, and the result is the id, username
  and handle of the user subscribed to. When \<open>subscriberID\<close> is no user's id the foreign
  key rejects the insert: the result is \<open>ErrExists\<close> and the database is unchanged.
\<close>

theorem Subscribe_cases:
  assumes "distinct (map c_id (users db))"
  shows "((\<forall>r \<in> set (users db). c_id r \<noteq> userID) \<longrightarrow>
            Subscribe db userID subscriberID 1 = (Inl ErrNoUser, db)) \<and>
         (\<forall>r \<in> set (users db). c_id r = userID \<longrightarrow>
            Subscribe db userID subscriberID 1 =
              (if subscriberID \<in> set (map c_id (users db))
               then (Inr (zero_User\<lparr>ID := userID, Username := c_username r,
                                     Telegram := c_telegram r\<rparr>),
                     db\<lparr>subscribes := subscribes db @
                           [\<lparr>s_id = subscribes_auto_increment db, s_userID = userID,
                             s_subscriberID = subscriberID\<rparr>],
                        subscribes_auto_increment := subscribes_auto_increment db + 1\<rparr>)
               else (Inl ErrExists, db)))"
proof (intro conjI impI ballI)
  assume "\<forall>r \<in> set (users db). c_id r \<noteq> userID"
  then have "find (\<lambda>r. c_id r = userID) (users db) = None"
    by (simp add: find_None_iff)
  then show "Subscribe db userID subscriberID 1 = (Inl ErrNoUser, db)"
    by (simp add: Subscribe_def)
next
  fix r assume r: "r \<in> set (users db)" and u: "c_id r = userID"
  from find_unique [OF assms r] u
  have f: "find (\<lambda>r. c_id r = userID) (users db) = Some r" by simp
  from r u have m: "userID \<in> set (map c_id (users db))" by force
  show "Subscribe db userID subscriberID 1 =
              (if subscriberID \<in> set (map c_id (users db))
               then (Inr (zero_User\<lparr>ID := userID, Username := c_username r,
                                     Telegram := c_telegram r\<rparr>),
                     db\<lparr>subscribes := subscribes db @
                           [\<lparr>s_id = subscribes_auto_increment db, s_userID = userID,
                             s_subscriberID = subscriberID\<rparr>],
                        subscribes_auto_increment := subscribes_auto_increment db + 1\<rparr>)
               else (Inl ErrExists, db))"
    using m u by (simp add: Subscribe_def f insert_subscribes_def Let_def)
qed

lemma sample_ids: "map c_id (users sample_db) = [1, 2, 3]"
  by (simp add: sample_db_def sample_users)

theorem Subscribe_cases_witness:
  "distinct (map c_id (users sample_db)) \<and>
   9 \<notin> set (map c_id (users sample_db)) \<and>
   Subscribe sample_db 9 3 1 = (Inl ErrNoUser, sample_db) \<and>
   anna \<in> set (users sample_db) \<and> c_id anna = 1 \<and>
   3 \<in> set (map c_id (users sample_db)) \<and>
   Subscribe sample_db 1 3 1 =
     (Inr (zero_User\<lparr>ID := 1, Username := ''anna'', Telegram := ''@anna''\<rparr>),
      sample_db\<lparr>subscribes := [\<lparr>s_id = 1, s_userID = 1, s_subscriberID = 3\<rparr>],
                subscribes_auto_increment := 2\<rparr>) \<and>
   Subscribe sample_db 1 7 1 = (Inl ErrExists, sample_db)"
proof -
  have d: "distinct (map c_id (users sample_db))" by (simp add: sample_ids)
  have a: "anna \<in> set (users sample_db)" by (simp add: sample_db_def)
  have i: "c_id anna = 1" by (simp add: anna_def)
  have n: "\<forall>r \<in> set (users sample_db). c_id r \<noteq> 9"
    by (simp add: sample_db_def sample_users)
  from Subscribe_cases [OF d, of 9 3] n
  have 1: "Subscribe sample_db 9 3 1 = (Inl ErrNoUser, sample_db)" by blast
  have f: "c_username anna = ''anna''" "c_telegram anna = ''@anna''"
    by (simp_all add: anna_def)
  from Subscribe_cases [OF d, of 1 3] a i
  have "Subscribe sample_db 1 3 1 =
     (if 3 \<in> set (map c_id (users sample_db))
      then (Inr (zero_User\<lparr>ID := 1, Username := c_username anna,
                            Telegram := c_telegram anna\<rparr>),
            sample_db\<lparr>subscribes := subscribes sample_db @
                  [\<lparr>s_id = subscribes_auto_increment sample_db, s_userID = 1,
                    s_subscriberID = 3\<rparr>],
               subscribes_auto_increment := subscribes_auto_increment sample_db + 1\<rparr>)
      else (Inl ErrExists, sample_db))"
    by blast
  then have 2: "Subscribe sample_db 1 3 1 =
     (Inr (zero_User\<lparr>ID := 1, Username := ''anna'', Telegram := ''@anna''\<rparr>),
      sample_db\<lparr>subscribes := [\<lparr>s_id = 1, s_userID = 1, s_subscriberID = 3\<rparr>],
                subscribes_auto_increment := 2\<rparr>)"
    by (simp add: sample_ids f sample_db_simps(2,4))
  from Subscribe_cases [OF d, of 1 7] a i
  have "Subscribe sample_db 1 7 1 =
     (if 7 \<in> set (map c_id (users sample_db))
      then (Inr (zero_User\<lparr>ID := 1, Username := c_username anna,
                            Telegram := c_telegram anna\<rparr>),
            sample_db\<lparr>subscribes := subscribes sample_db @
                  [\<lparr>s_id = subscribes_auto_increment sample_db, s_userID = 1,
                    s_subscriberID = 7\<rparr>],
               subscribes_auto_increment := subscribes_auto_increment sample_db + 1\<rparr>)
      else (Inl ErrExists, sample_db))"
    by blast
  then have 3: "Subscribe sample_db 1 7 1 = (Inl ErrExists, sample_db)"
    by (simp add: sample_ids)
  from d a i 1 2 3 show ?thesis by (simp add: sample_ids)
qed

text \<open>
  Claim C6 as stated promises the edge whenever the user subscribed to exists. Anna
  exists, 9 is nobody's id: no edge is inserted and the result is \<open>ErrExists\<close>.
\<close>

theorem Subscribe_unknown_subscriber_counterexample:
  "find (\<lambda>r. c_id r = 1) (users sample_db) = Some anna \<and>
   Subscribe sample_db 1 9 1 = (Inl ErrExists, sample_db)"
  by (simp add: Subscribe_def insert_subscribes_def sample_db_simps sample_users)

subsection \<open>Registration\<close>

lemma hashPassword_eq: "hashPassword gen salt pass = gen salt pass"
  by (simp add: hashPassword_def split: sum.splits)

text \<open>
  Claim C8. When \<open>MakeUser\<close> succeeds, the database has one more row, and the password
  column of that row holds what bcrypt returned for the salt and the password, computed
  before the insert. It holds the plaintext only if bcrypt itself returned the
  plaintext as its hash.
\<close>

theorem MakeUser_stores_hash:
  assumes "MakeUser gen eng salt db username pass firstname middlename lastname birthday
             telegram = (Inr u, db')"
  shows "\<exists>h d. gen salt pass = Inr h \<and> to_date eng birthday = Some d \<and>
           db' = db\<lparr>users := users db @
                     [\<lparr>c_id = ID u, c_username = username, c_firstname = firstname,
                       c_middlename = middlename, c_lastname = lastname, c_password = h,
                       c_birthday = d, c_telegram = telegram, c_telegramID = None\<rparr>],
                   users_auto_increment := users_auto_increment db + 1\<rparr> \<and>
           (c_password (last (users db')) = pass \<longleftrightarrow> gen salt pass = Inr pass)"
proof -
  from assms obtain h where h: "gen salt pass = Inr h"
    by (cases "gen salt pass") (auto simp: MakeUser_def hashPassword_eq)
  from assms h obtain uid where
    ins: "insert_users eng db username h firstname middlename lastname birthday telegram =
            Some (uid, db')"
    and u: "u = zero_User\<lparr>ID := uid, Username := username\<rparr>"
    by (auto simp: MakeUser_def hashPassword_eq split: option.splits)
  from ins obtain d where d: "to_date eng birthday = Some d"
    by (auto simp: insert_users_def split: option.splits)
  from ins d have "uid = users_auto_increment db" and
    "db' = db\<lparr>users := users db @
                     [\<lparr>c_id = uid, c_username = username, c_firstname = firstname,
                       c_middlename = middlename, c_lastname = lastname, c_password = h,
                       c_birthday = d, c_telegram = telegram, c_telegramID = None\<rparr>],
                   users_auto_increment := users_auto_increment db + 1\<rparr>"
    by (auto simp: insert_users_def Let_def split: if_splits)
  with h d u show ?thesis by auto
qed


lemma sample_date: "sample_to_date ''1999-03-04'' = Some \<lparr>year = 1999, month = 3, day = 4\<rparr>"
  by (simp add: sample_to_date_def digit_value_def)

theorem MakeUser_stores_hash_witness:
  "MakeUser sample_generate sample_engine ''salt'' sample_db ''dora'' ''secret'' ''Dora'' []
     ''Ng'' ''1999-03-04'' ''@dora'' =
     (Inr (zero_User\<lparr>ID := 4, Username := ''dora''\<rparr>),
      sample_db\<lparr>users := users sample_db @
         [\<lparr>c_id = 4, c_username = ''dora'', c_firstname = ''Dora'', c_middlename = [],
           c_lastname = ''Ng'', c_password = ''$2a$10$salt.secret'',
           c_birthday = \<lparr>year = 1999, month = 3, day = 4\<rparr>, c_telegram = ''@dora'',
           c_telegramID = None\<rparr>],
         users_auto_increment := 5\<rparr>) \<and>
   sample_generate ''salt'' ''secret'' = Inr ''$2a$10$salt.secret'' \<and>
   c_password (last (users (snd (MakeUser sample_generate sample_engine ''salt'' sample_db
     ''dora'' ''secret'' ''Dora'' [] ''Ng'' ''1999-03-04'' ''@dora'')))) \<noteq> ''secret''"
proof -
  let ?db' = "sample_db\<lparr>users := users sample_db @
         [\<lparr>c_id = 4, c_username = ''dora'', c_firstname = ''Dora'', c_middlename = [],
           c_lastname = ''Ng'', c_password = ''$2a$10$salt.secret'',
           c_birthday = \<lparr>year = 1999, month = 3, day = 4\<rparr>, c_telegram = ''@dora'',
           c_telegramID = None\<rparr>],
         users_auto_increment := 5\<rparr>"
  have g: "sample_generate ''salt'' ''secret'' = Inr ''$2a$10$salt.secret''"
    by (simp add: sample_generate_def)
  have run: "MakeUser sample_generate sample_engine ''salt'' sample_db ''dora'' ''secret''
      ''Dora'' [] ''Ng'' ''1999-03-04'' ''@dora'' =
      (Inr (zero_User\<lparr>ID := 4, Username := ''dora''\<rparr>), ?db')"
    by (simp add: MakeUser_def hashPassword_eq g insert_users_def sample_engine_def
          sample_date sample_db_simps sample_users)
  from MakeUser_stores_hash [OF run] g
  have "c_password (last (users ?db')) \<noteq> ''secret''" by auto
  with run g show ?thesis by simp
qed

subsection \<open>Commands of the bot\<close>

lemma HasPrefix_iff: "HasPrefix s p \<longleftrightarrow> (\<exists>t. s = p @ t)"
proof
  assume "HasPrefix s p"
  then have "s = p @ drop (length p) s"
    by (metis HasPrefix_def append_take_drop_id)
  then show "\<exists>t. s = p @ t" ..
next
  assume "\<exists>t. s = p @ t"
  then show "HasPrefix s p" by (auto simp: HasPrefix_def)
qed

lemma one_command_matches:
  "length (filter (\<lambda>(cmd, handler). HasPrefix text cmd) commandHandlers) \<le> 1"
  by (auto simp: commandHandlers_def HasPrefix_iff)

text \<open>
  Claim C9. A message whose text is exactly \<open>/subscribe\<close> is dispatched to
  \<open>subscribeHandler\<close>, which slices the ten bytes from index 11 and panics; a message
  whose text is exactly \<open>/unsubscribe\<close> is dispatched to \<open>unsubscribeHandler\<close>, which slices
  the twelve bytes from index 13 and panics. Neither returns a reply.
\<close>

theorem command_without_argument_panics:
  "subscribeHandler Atoi eng \<lparr>Message = Some (m\<lparr>Text := ''/subscribe''\<rparr>)\<rparr> db =
     Inl (slice_bounds_out_of_range 11 10) \<and>
   updateHandler Atoi eng \<lparr>Message = Some (m\<lparr>Text := ''/subscribe''\<rparr>)\<rparr> db =
     Inl (slice_bounds_out_of_range 11 10) \<and>
   unsubscribeHandler Atoi eng \<lparr>Message = Some (m\<lparr>Text := ''/unsubscribe''\<rparr>)\<rparr> db =
     Inl (slice_bounds_out_of_range 13 12) \<and>
   updateHandler Atoi eng \<lparr>Message = Some (m\<lparr>Text := ''/unsubscribe''\<rparr>)\<rparr> db =
     Inl (slice_bounds_out_of_range 13 12)"
proof -
  have s: "subscribeHandler Atoi eng \<lparr>Message = Some (m\<lparr>Text := ''/subscribe''\<rparr>)\<rparr> db =
     Inl (slice_bounds_out_of_range 11 10)"
    by (simp add: subscribeHandler_def slice_from_def)
  have u: "unsubscribeHandler Atoi eng \<lparr>Message = Some (m\<lparr>Text := ''/unsubscribe''\<rparr>)\<rparr> db =
     Inl (slice_bounds_out_of_range 13 12)"
    by (simp add: unsubscribeHandler_def slice_from_def)
  have fs: "find (\<lambda>(cmd, handler). HasPrefix ''/subscribe'' cmd) commandHandlers =
      Some (''/subscribe'', subscribeHandler)"
    by (simp add: commandHandlers_def HasPrefix_def)
  have fu: "find (\<lambda>(cmd, handler). HasPrefix ''/unsubscribe'' cmd) commandHandlers =
      Some (''/unsubscribe'', unsubscribeHandler)"
    by (simp add: commandHandlers_def HasPrefix_def)
  show ?thesis
    by (simp add: updateHandler_def fs fu s u)
qed

subsection \<open>Login\<close>

text \<open>
  Claim C5. When \<open>Authorize\<close> fails for the credentials of a login request (unknown user
  or wrong password), \<open>Login\<close> answers without calling \<open>Create\<close>: the calls it adds are none
  or the one call of \<open>Authorize\<close>, and the session store is left as it was.
\<close>

theorem Login_failure_creates_no_session:
  assumes "Body r = Form af"
    and "Authorize cmp (UserRepo h) (Username_af af) (Password_af af) = Inl e"
  shows "Login cmp sm h r =
           (if Password_af af = []
            then (\<lparr>Status = 422, Content = ErrorsJSON [newError ''Password'']\<rparr>, h)
            else (http_Error (Error e) 400,
                  h\<lparr>Calls := Calls h @ [AuthorizeCall (Username_af af) (Password_af af)]\<rparr>)) \<and>
         Sessions (snd (Login cmp sm h r)) = Sessions h \<and>
         (\<exists>cs. Calls (snd (Login cmp sm h r)) = Calls h @ cs \<and> (\<forall>s. CreateCall s \<notin> set cs))"
proof -
  have 1: "Login cmp sm h r =
           (if Password_af af = []
            then (\<lparr>Status = 422, Content = ErrorsJSON [newError ''Password'']\<rparr>, h)
            else (http_Error (Error e) 400,
                  h\<lparr>Calls := Calls h @ [AuthorizeCall (Username_af af) (Password_af af)]\<rparr>))"
    using assms
    by (simp add: Login_def dataValidation_AuthForm_def call_Authorize_def Let_def)
  show ?thesis
  proof (cases "Password_af af = []")
    case True
    with 1 show ?thesis by simp
  next
    case False
    with 1 show ?thesis by simp
  qed
qed

lemma Status_http_Error: "Status (http_Error msg code) = code"
  by (simp add: http_Error_def)

lemma Login_status: "Status (fst (Login cmp sm h r)) \<in> {200, 400, 422, 500}"
  by (auto simp: Login_def Let_def call_Authorize_def call_Create_def Status_http_Error
      split: body.splits sum.splits prod.splits option.splits)

text \<open>
  Claim C10, as the code has it. \<open>Login\<close> never answers 401: the comparisons of \<open>err\<close> with
  \<open>ErrNoUser\<close> and \<open>ErrBadPass\<close> come after the return for a non-nil \<open>err\<close>. When
  \<open>Authorize\<close> fails, the answer is 400 with the message of the error as its text, so an
  unknown user and a wrong password get the same status and different texts.
\<close>

theorem Login_rejection_is_400:
  "Status (fst (Login cmp sm h r)) \<noteq> 401 \<and>
   (\<forall>af e. Body r = Form af \<and> Password_af af \<noteq> [] \<and>
      Authorize cmp (UserRepo h) (Username_af af) (Password_af af) = Inl e \<longrightarrow>
      fst (Login cmp sm h r) = http_Error (Error e) 400) \<and>
   http_Error (Error ErrNoUser) 400 \<noteq> http_Error (Error ErrBadPass) 400"
proof (intro conjI allI impI)
  from Login_status [of cmp sm h r] show "Status (fst (Login cmp sm h r)) \<noteq> 401"
    by auto
next
  fix af e
  assume "Body r = Form af \<and> Password_af af \<noteq> [] \<and>
      Authorize cmp (UserRepo h) (Username_af af) (Password_af af) = Inl e"
  then show "fst (Login cmp sm h r) = http_Error (Error e) 400"
    by (simp add: Login_def dataValidation_AuthForm_def call_Authorize_def Let_def)
next
  show "http_Error (Error ErrNoUser) 400 \<noteq> http_Error (Error ErrBadPass) 400"
    by (simp add: http_Error_def)
qed


lemma Authorize_sample:
  "Authorize sample_compare sample_db ''anna'' ''pw'' = Inl ErrBadPass"
  "Authorize sample_compare sample_db ''zed'' ''pw'' = Inl ErrNoUser"
  by (simp_all add: Authorize_def sample_db_simps sample_users sample_compare_def zero_User_def)

lemma sample_handler_simps:
  "UserRepo sample_handler = sample_db" "Calls sample_handler = []"
  "Sessions sample_handler =
     \<lparr>entries = [(''tok-anna'', \<lparr>ID_sess = 1, Login_sess = ''anna'', Useragent = ''curl''\<rparr>)],
      tokens = [''tok-next'']\<rparr>"
  by (simp_all add: sample_handler_def)

theorem Login_failure_creates_no_session_witness:
  "Body \<lparr>Body = Form \<lparr>Username_af = ''anna'', Password_af = ''pw''\<rparr>, Authorization = [],
          UserAgent = ''ff''\<rparr> = Form \<lparr>Username_af = ''anna'', Password_af = ''pw''\<rparr> \<and>
   Authorize sample_compare (UserRepo sample_handler) ''anna'' ''pw'' = Inl ErrBadPass \<and>
   Login sample_compare memory_sessions sample_handler
     \<lparr>Body = Form \<lparr>Username_af = ''anna'', Password_af = ''pw''\<rparr>, Authorization = [],
      UserAgent = ''ff''\<rparr> =
     (http_Error ''invalid password'' 400,
      sample_handler\<lparr>Calls := [AuthorizeCall ''anna'' ''pw'']\<rparr>) \<and>
   Sessions (snd (Login sample_compare memory_sessions sample_handler
     \<lparr>Body = Form \<lparr>Username_af = ''anna'', Password_af = ''pw''\<rparr>, Authorization = [],
      UserAgent = ''ff''\<rparr>)) = Sessions sample_handler"
proof -
  let ?af = "\<lparr>Username_af = ''anna'', Password_af = ''pw''\<rparr>"
  let ?r = "\<lparr>Body = Form ?af, Authorization = [], UserAgent = ''ff''\<rparr>"
  have b: "Body ?r = Form ?af" by simp
  have a: "Authorize sample_compare (UserRepo sample_handler) (Username_af ?af) (Password_af ?af)
             = Inl ErrBadPass"
    by (simp add: sample_handler_simps Authorize_sample)
  from Login_failure_creates_no_session [OF b a, of memory_sessions] a
  show ?thesis by (simp add: sample_handler_simps)
qed

theorem Login_rejection_is_400_witness:
  "Password_af \<lparr>Username_af = ''zed'', Password_af = ''pw''\<rparr> \<noteq> [] \<and>
   Authorize sample_compare (UserRepo sample_handler) ''zed'' ''pw'' = Inl ErrNoUser \<and>
   fst (Login sample_compare memory_sessions sample_handler
     \<lparr>Body = Form \<lparr>Username_af = ''zed'', Password_af = ''pw''\<rparr>, Authorization = [],
      UserAgent = ''ff''\<rparr>) = http_Error ''no user found'' 400"
proof -
  let ?af = "\<lparr>Username_af = ''zed'', Password_af = ''pw''\<rparr>"
  let ?r = "\<lparr>Body = Form ?af, Authorization = [], UserAgent = ''ff''\<rparr>"
  have a: "Authorize sample_compare (UserRepo sample_handler) (Username_af ?af) (Password_af ?af)
             = Inl ErrNoUser"
    by (simp add: sample_handler_simps Authorize_sample)
  from Login_rejection_is_400 [of sample_compare memory_sessions sample_handler ?r]
  have "Body ?r = Form ?af \<and> Password_af ?af \<noteq> [] \<and>
      Authorize sample_compare (UserRepo sample_handler) (Username_af ?af) (Password_af ?af)
        = Inl ErrNoUser \<longrightarrow>
      fst (Login sample_compare memory_sessions sample_handler ?r) =
        http_Error (Error ErrNoUser) 400"
    by blast
  with a show ?thesis by simp
qed

text \<open>
  Claim C10 as stated calls the two answers indistinguishable. For the unknown user
  \<open>zed\<close> and for Anna with a wrong password the texts differ.
\<close>

theorem Login_bodies_differ_counterexample:
  "fst (Login sample_compare memory_sessions sample_handler
     \<lparr>Body = Form \<lparr>Username_af = ''zed'', Password_af = ''pw''\<rparr>, Authorization = [],
      UserAgent = ''ff''\<rparr>) =
     \<lparr>Status = 400, Content = Plain (''no user found'' @ [CHR 0x0A])\<rparr> \<and>
   fst (Login sample_compare memory_sessions sample_handler
     \<lparr>Body = Form \<lparr>Username_af = ''anna'', Password_af = ''pw''\<rparr>, Authorization = [],
      UserAgent = ''ff''\<rparr>) =
     \<lparr>Status = 400, Content = Plain (''invalid password'' @ [CHR 0x0A])\<rparr> \<and>
   fst (Login sample_compare memory_sessions sample_handler
     \<lparr>Body = Form \<lparr>Username_af = ''zed'', Password_af = ''pw''\<rparr>, Authorization = [],
      UserAgent = ''ff''\<rparr>) \<noteq>
   fst (Login sample_compare memory_sessions sample_handler
     \<lparr>Body = Form \<lparr>Username_af = ''anna'', Password_af = ''pw''\<rparr>, Authorization = [],
      UserAgent = ''ff''\<rparr>)"
  by (simp add: Login_def dataValidation_AuthForm_def call_Authorize_def sample_handler_simps
        Authorize_sample http_Error_def)

subsection \<open>The protected routes\<close>

text \<open>
  Claim C4, as the code has it. For the three protected handlers: when the
  \<open>Authorization\<close> header does not begin with \<open>Bearer \<close> the answer is 401 and nothing is
  called; when it does and \<open>Check\<close> finds no session for the rest of the header the answer
  is 401 and \<open>Check\<close> is the only call, so the repository is neither called nor changed.
  Otherwise the handler goes on, and what it does is the same whichever session \<open>Check\<close>
  returned: the list of all users for \<open>GetUsers\<close>, and for the two subscription handlers a
  call of \<open>Subscribe\<close> with both ids taken from the form in the request body.
\<close>

theorem bearer_guard:
  fixes r :: "SubscribeForm Request"
  shows
  "(\<not> HasPrefix (Authorization r) ''Bearer '' \<longrightarrow>
      GetUsers_handler sm h r = (http_Error ErrUserNotFound 401, h) \<and>
      SubscribeToUser sm h r = (http_Error ErrUserNotFound 401, h) \<and>
      UnsubscribeToUser sm h r = (http_Error ErrUserNotFound 401, h)) \<and>
   (HasPrefix (Authorization r) ''Bearer '' \<and>
    Check sm (Sessions h) (drop 7 (Authorization r)) = None \<longrightarrow>
      GetUsers_handler sm h r =
        (http_Error ErrUserNotFound 401,
         h\<lparr>Calls := Calls h @ [CheckCall (drop 7 (Authorization r))]\<rparr>) \<and>
      SubscribeToUser sm h r =
        (http_Error ErrUserNotFound 401,
         h\<lparr>Calls := Calls h @ [CheckCall (drop 7 (Authorization r))]\<rparr>) \<and>
      UnsubscribeToUser sm h r =
        (http_Error ErrUserNotFound 401,
         h\<lparr>Calls := Calls h @ [CheckCall (drop 7 (Authorization r))]\<rparr>)) \<and>
   (\<forall>sess. HasPrefix (Authorization r) ''Bearer '' \<and>
      Check sm (Sessions h) (drop 7 (Authorization r)) = Some sess \<longrightarrow>
      (\<forall>sess'. GetUsers_handler sm h r =
                  GetUsers_handler (sm\<lparr>Check := \<lambda>st token. Some sess'\<rparr>) h r \<and>
               SubscribeToUser sm h r =
                  SubscribeToUser (sm\<lparr>Check := \<lambda>st token. Some sess'\<rparr>) h r \<and>
               UnsubscribeToUser sm h r =
                  UnsubscribeToUser (sm\<lparr>Check := \<lambda>st token. Some sess'\<rparr>) h r) \<and>
      GetUsers_handler sm h r =
        (case GetUsers (UserRepo h) of
           Inl err \<Rightarrow> http_Error (Error err) 400
         | Inr us \<Rightarrow> \<lparr>Status = 200, Content = UsersJSON us\<rparr>,
         h\<lparr>Calls := Calls h @ [CheckCall (drop 7 (Authorization r)), GetUsersCall]\<rparr>) \<and>
      (\<forall>sf. Body r = Form sf \<and> UserID sf \<noteq> 0 \<and> SubscriberID sf \<noteq> 0 \<longrightarrow>
         snd (SubscribeToUser sm h r) =
           h\<lparr>UserRepo := snd (Subscribe (UserRepo h) (UserID sf) (SubscriberID sf) 1),
             Calls := Calls h @ [CheckCall (drop 7 (Authorization r)),
                                 SubscribeCall (UserID sf) (SubscriberID sf) 1]\<rparr> \<and>
         snd (UnsubscribeToUser sm h r) =
           h\<lparr>UserRepo := snd (Subscribe (UserRepo h) (UserID sf) (SubscriberID sf) 0),
             Calls := Calls h @ [CheckCall (drop 7 (Authorization r)),
                                 SubscribeCall (UserID sf) (SubscriberID sf) 0]\<rparr>))"
proof (intro conjI impI allI)
  assume "\<not> HasPrefix (Authorization r) ''Bearer ''"
  then show "GetUsers_handler sm h r = (http_Error ErrUserNotFound 401, h)"
    "SubscribeToUser sm h r = (http_Error ErrUserNotFound 401, h)"
    "UnsubscribeToUser sm h r = (http_Error ErrUserNotFound 401, h)"
    by (simp_all add: GetUsers_handler_def SubscribeToUser_def UnsubscribeToUser_def)
next
  assume "HasPrefix (Authorization r) ''Bearer '' \<and>
    Check sm (Sessions h) (drop 7 (Authorization r)) = None"
  then show "GetUsers_handler sm h r =
        (http_Error ErrUserNotFound 401,
         h\<lparr>Calls := Calls h @ [CheckCall (drop 7 (Authorization r))]\<rparr>)"
    "SubscribeToUser sm h r =
        (http_Error ErrUserNotFound 401,
         h\<lparr>Calls := Calls h @ [CheckCall (drop 7 (Authorization r))]\<rparr>)"
    "UnsubscribeToUser sm h r =
        (http_Error ErrUserNotFound 401,
         h\<lparr>Calls := Calls h @ [CheckCall (drop 7 (Authorization r))]\<rparr>)"
    by (simp_all add: GetUsers_handler_def SubscribeToUser_def UnsubscribeToUser_def
          call_Check_def)
next
  fix sess sess'
  assume a: "HasPrefix (Authorization r) ''Bearer '' \<and>
      Check sm (Sessions h) (drop 7 (Authorization r)) = Some sess"
  then show "GetUsers_handler sm h r =
                  GetUsers_handler (sm\<lparr>Check := \<lambda>st token. Some sess'\<rparr>) h r"
    by (simp add: GetUsers_handler_def call_Check_def)
  from a show "SubscribeToUser sm h r =
                  SubscribeToUser (sm\<lparr>Check := \<lambda>st token. Some sess'\<rparr>) h r"
    by (simp add: SubscribeToUser_def call_Check_def)
  from a show "UnsubscribeToUser sm h r =
                  UnsubscribeToUser (sm\<lparr>Check := \<lambda>st token. Some sess'\<rparr>) h r"
    by (simp add: UnsubscribeToUser_def call_Check_def)
next
  fix sess
  assume a: "HasPrefix (Authorization r) ''Bearer '' \<and>
      Check sm (Sessions h) (drop 7 (Authorization r)) = Some sess"
  then show "GetUsers_handler sm h r =
        (case GetUsers (UserRepo h) of
           Inl err \<Rightarrow> http_Error (Error err) 400
         | Inr us \<Rightarrow> \<lparr>Status = 200, Content = UsersJSON us\<rparr>,
         h\<lparr>Calls := Calls h @ [CheckCall (drop 7 (Authorization r)), GetUsersCall]\<rparr>)"
    by (simp add: GetUsers_handler_def call_Check_def call_GetUsers_def split: sum.splits)
next
  fix sess sf
  assume a: "HasPrefix (Authorization r) ''Bearer '' \<and>
      Check sm (Sessions h) (drop 7 (Authorization r)) = Some sess"
    and b: "Body r = Form sf \<and> UserID sf \<noteq> 0 \<and> SubscriberID sf \<noteq> 0"
  from a b show "snd (SubscribeToUser sm h r) =
           h\<lparr>UserRepo := snd (Subscribe (UserRepo h) (UserID sf) (SubscriberID sf) 1),
             Calls := Calls h @ [CheckCall (drop 7 (Authorization r)),
                                 SubscribeCall (UserID sf) (SubscriberID sf) 1]\<rparr>"
    by (simp add: SubscribeToUser_def call_Check_def call_Subscribe_def
          dataValidation_SubscribeForm_def split: sum.splits prod.splits)
  from a b show "snd (UnsubscribeToUser sm h r) =
           h\<lparr>UserRepo := snd (Subscribe (UserRepo h) (UserID sf) (SubscriberID sf) 0),
             Calls := Calls h @ [CheckCall (drop 7 (Authorization r)),
                                 SubscribeCall (UserID sf) (SubscriberID sf) 0]\<rparr>"
    by (simp add: UnsubscribeToUser_def call_Check_def call_Subscribe_def
          dataValidation_SubscribeForm_def split: sum.splits prod.splits)
qed


lemma memory_Check:
  "Check memory_sessions (Sessions sample_handler) ''tok-anna'' =
     Some \<lparr>ID_sess = 1, Login_sess = ''anna'', Useragent = ''curl''\<rparr>"
  "Check memory_sessions (Sessions sample_handler) ''nope'' = None"
  by (simp_all add: memory_sessions_def sample_handler_simps)

theorem bearer_guard_witness:
  "\<not> HasPrefix ''tok-anna'' ''Bearer '' \<and>
   SubscribeToUser memory_sessions sample_handler
     \<lparr>Body = Form \<lparr>UserID = 1, SubscriberID = 3\<rparr>, Authorization = ''tok-anna'',
      UserAgent = ''ff''\<rparr> = (http_Error ErrUserNotFound 401, sample_handler) \<and>
   HasPrefix ''Bearer nope'' ''Bearer '' \<and>
   Check memory_sessions (Sessions sample_handler) ''nope'' = None \<and>
   GetUsers_handler memory_sessions sample_handler
     \<lparr>Body = Form \<lparr>UserID = 1, SubscriberID = 3\<rparr>, Authorization = ''Bearer nope'',
      UserAgent = ''ff''\<rparr> =
     (http_Error ErrUserNotFound 401, sample_handler\<lparr>Calls := [CheckCall ''nope'']\<rparr>) \<and>
   HasPrefix ''Bearer tok-anna'' ''Bearer '' \<and>
   Check memory_sessions (Sessions sample_handler) ''tok-anna'' =
     Some \<lparr>ID_sess = 1, Login_sess = ''anna'', Useragent = ''curl''\<rparr> \<and>
   snd (SubscribeToUser memory_sessions sample_handler
     \<lparr>Body = Form \<lparr>UserID = 1, SubscriberID = 3\<rparr>, Authorization = ''Bearer tok-anna'',
      UserAgent = ''ff''\<rparr>) =
     sample_handler\<lparr>UserRepo := once_db,
                    Calls := [CheckCall ''tok-anna'', SubscribeCall 1 3 1]\<rparr>"
proof -
  let ?sf = "\<lparr>UserID = 1, SubscriberID = 3\<rparr>"
  let ?r1 = "\<lparr>Body = Form ?sf, Authorization = ''tok-anna'', UserAgent = ''ff''\<rparr>"
  let ?r2 = "\<lparr>Body = Form ?sf, Authorization = ''Bearer nope'', UserAgent = ''ff''\<rparr>"
  let ?r3 = "\<lparr>Body = Form ?sf, Authorization = ''Bearer tok-anna'', UserAgent = ''ff''\<rparr>"
  have p1: "\<not> HasPrefix (Authorization ?r1) ''Bearer ''" by (simp add: HasPrefix_def)
  have p2: "HasPrefix (Authorization ?r2) ''Bearer ''" by (simp add: HasPrefix_def)
  have p3: "HasPrefix (Authorization ?r3) ''Bearer ''" by (simp add: HasPrefix_def)
  have c2: "Check memory_sessions (Sessions sample_handler) (drop 7 (Authorization ?r2)) = None"
    by (simp add: memory_Check)
  have c3: "Check memory_sessions (Sessions sample_handler) (drop 7 (Authorization ?r3)) =
      Some \<lparr>ID_sess = 1, Login_sess = ''anna'', Useragent = ''curl''\<rparr>"
    by (simp add: memory_Check)
  from bearer_guard [of ?r1 memory_sessions sample_handler] p1
  have 1: "SubscribeToUser memory_sessions sample_handler ?r1 =
      (http_Error ErrUserNotFound 401, sample_handler)"
    by blast
  from bearer_guard [of ?r2 memory_sessions sample_handler] p2 c2
  have "GetUsers_handler memory_sessions sample_handler ?r2 =
      (http_Error ErrUserNotFound 401,
       sample_handler\<lparr>Calls := Calls sample_handler @ [CheckCall (drop 7 (Authorization ?r2))]\<rparr>)"
    by blast
  then have 2: "GetUsers_handler memory_sessions sample_handler ?r2 =
      (http_Error ErrUserNotFound 401, sample_handler\<lparr>Calls := [CheckCall ''nope'']\<rparr>)"
    by (simp add: sample_handler_simps)
  have b: "Body ?r3 = Form ?sf \<and> UserID ?sf \<noteq> 0 \<and> SubscriberID ?sf \<noteq> 0" by simp
  from bearer_guard [of ?r3 memory_sessions sample_handler] p3 c3 b
  have "snd (SubscribeToUser memory_sessions sample_handler ?r3) =
      sample_handler\<lparr>UserRepo := snd (Subscribe (UserRepo sample_handler) (UserID ?sf)
                                          (SubscriberID ?sf) 1),
        Calls := Calls sample_handler @ [CheckCall (drop 7 (Authorization ?r3)),
                   SubscribeCall (UserID ?sf) (SubscriberID ?sf) 1]\<rparr>"
    by blast
  then have 3: "snd (SubscribeToUser memory_sessions sample_handler ?r3) =
      sample_handler\<lparr>UserRepo := once_db,
                     Calls := [CheckCall ''tok-anna'', SubscribeCall 1 3 1]\<rparr>"
    by (simp add: sample_handler_simps once_db_def)
  from p1 p2 p3 1 2 3 show ?thesis by (simp add: memory_Check)
qed

text \<open>
  Claim C4 as stated lets the request proceed with the identity resolved from the
  session. With Anna's token (session of user 1) the handler subscribes user 2 to user 3:
  the subscriber is the one the body names.
\<close>

theorem session_identity_unused_counterexample:
  "Check memory_sessions (Sessions sample_handler) ''tok-anna'' =
     Some \<lparr>ID_sess = 1, Login_sess = ''anna'', Useragent = ''curl''\<rparr> \<and>
   SubscribeToUser memory_sessions sample_handler
     \<lparr>Body = Form \<lparr>UserID = 3, SubscriberID = 2\<rparr>, Authorization = ''Bearer tok-anna'',
      UserAgent = ''ff''\<rparr> =
     (\<lparr>Status = 200, Content = Empty\<rparr>,
      sample_handler
        \<lparr>UserRepo := sample_db\<lparr>subscribes := [\<lparr>s_id = 1, s_userID = 3, s_subscriberID = 2\<rparr>],
                               subscribes_auto_increment := 2\<rparr>,
         Calls := [CheckCall ''tok-anna'', SubscribeCall 3 2 1]\<rparr>)"
proof -
  have s: "Subscribe sample_db 3 2 1 =
      (Inr (zero_User\<lparr>ID := 3, Username := ''clara'', Telegram := ''@clara''\<rparr>),
       sample_db\<lparr>subscribes := [\<lparr>s_id = 1, s_userID = 3, s_subscriberID = 2\<rparr>],
                 subscribes_auto_increment := 2\<rparr>)"
    by (simp add: Subscribe_def insert_subscribes_def sample_db_simps sample_users)
  show ?thesis
    by (simp add: SubscribeToUser_def HasPrefix_def call_Check_def memory_Check
          dataValidation_SubscribeForm_def call_Subscribe_def sample_handler_simps(1,2) s)
qed

end
